theory Spec2Isabelle
  imports Complex_Main
begin

section \<open>Rows of a rendered block (core/renderers/measurables/rows.js)\<close>

text \<open>
  The file \<^verbatim>\<open>rows.js\<close> defines the class \<^verbatim>\<open>Row\<close> and its four subclasses
  \<^verbatim>\<open>TopRow\<close>, \<^verbatim>\<open>BottomRow\<close>, \<^verbatim>\<open>SpacerRow\<close> and \<^verbatim>\<open>InputRow\<close>. A JavaScript object
  is a record of its fields, a method is a function from the receiver (and the
  arguments) to the receiver after the call. A number is a real number, as every finite
  double is; NaN and the infinities are left out. The measure functions of the
  subsections on the rows add and subtract exactly and recurse over the list of
  elements; the section on the methods as the code runs them has the rounding addition
  and subtraction of doubles as parameters and walks the array by index.
\<close>

subsection \<open>Values the rows read from their collaborators\<close>

text \<open>
  The child elements of a row are instances of \<^verbatim>\<open>Blockly.blockRendering.Measurable\<close>,
  a class defined in another file. The record holds exactly what the rows read from an
  element: its fields \<^verbatim>\<open>type\<close>, \<^verbatim>\<open>width\<close>, \<^verbatim>\<open>height\<close>, \<^verbatim>\<open>isInput\<close>,
  \<^verbatim>\<open>startY\<close>, \<^verbatim>\<open>connectedBlockWidth\<close>, \<^verbatim>\<open>connectionWidth\<close>, and, as the field
  \<open>isSpacer\<close>, the answer of the method call \<^verbatim>\<open>elem.isSpacer()\<close>.
\<close>

record Measurable =
  type :: string
  width :: real
  height :: real
  isInput :: bool
  isSpacer :: bool
  startY :: real
  connectedBlockWidth :: real
  connectionWidth :: real

text \<open>
  The values of JavaScript, as far as truthiness is concerned. The property
  \<^verbatim>\<open>elem.isSpacer\<close> read without calling it is the method itself: \<^verbatim>\<open>measure\<close> and
  \<^verbatim>\<open>getLastInput\<close> call \<^verbatim>\<open>elem.isSpacer()\<close> on every element, so every element
  carries the method.
\<close>

datatype jsvalue =
  JSUndefined | JSNull | JSBoolean bool | JSNumber real | JSString string
  | JSFunction | JSObject

fun truthy :: "jsvalue \<Rightarrow> bool" where
  "truthy JSUndefined = False"
| "truthy JSNull = False"
| "truthy (JSBoolean b) = b"
| "truthy (JSNumber n) = (n \<noteq> 0)"
| "truthy (JSString s) = (s \<noteq> [])"
| "truthy JSFunction = True"
| "truthy JSObject = True"

definition isSpacer_property :: "Measurable \<Rightarrow> jsvalue" where
  "isSpacer_property elem = JSFunction"

text \<open>
  The host block (\<^verbatim>\<open>Blockly.BlockSvg\<close>) and its inputs, as far as \<^verbatim>\<open>populate\<close>
  reads them. Blocks and connections are objects, compared by identity: they are
  referred to by references, and a heap maps every block reference to the block's
  state. The fields \<open>getPreviousBlock\<close>, \<open>getNextBlock\<close>, \<open>isCollapsed\<close> and
  \<open>getInputsInline\<close> hold the answers of the methods of these names; \<open>None\<close>
  stands for \<^verbatim>\<open>null\<close> or \<^verbatim>\<open>undefined\<close>.
\<close>

type_synonym block_ref = nat
type_synonym connection_ref = nat

record Input =
  type :: int

record Block =
  hat :: "string option"
  outputConnection :: "connection_ref option"
  previousConnection :: "connection_ref option"
  nextConnection :: "connection_ref option"
  getPreviousBlock :: "block_ref option"
  getNextBlock :: "block_ref option"
  inputList :: "Input list"
  isCollapsed :: bool
  getInputsInline :: bool

type_synonym heap = "block_ref \<Rightarrow> Block"

text \<open>
  The constants and the constructors of the elements, all defined in other files, are
  parameters: \<^verbatim>\<open>Blockly.BlockSvg.START_HAT\<close>, \<^verbatim>\<open>Blockly.NEXT_STATEMENT\<close>, the
  paddings and the notch of \<^verbatim>\<open>Blockly.blockRendering.constants\<close>, and for each
  constructor the object that \<^verbatim>\<open>new\<close> returns.
\<close>

record renderer =
  START_HAT :: bool
  NEXT_STATEMENT :: int
  LARGE_PADDING :: real
  MEDIUM_PADDING :: real
  NOTCH_height :: real
  SquareCorner :: Measurable
  RoundCorner :: Measurable
  Hat :: Measurable
  PreviousConnection :: "connection_ref \<Rightarrow> Measurable"
  NextConnection :: "connection_ref \<Rightarrow> Measurable"
  InRowSpacer :: "real \<Rightarrow> Measurable"

subsection \<open>Errors and completions\<close>

text \<open>
  A method call either returns or throws; in both cases the receiver is left in some
  state. \<open>TypeError\<close> is what JavaScript throws when a property of \<^verbatim>\<open>null\<close> or
  \<^verbatim>\<open>undefined\<close> is read.
\<close>

datatype error = Error string | TypeError

datatype 's completion = Normal 's | Throws error 's

fun returns :: "'s completion \<Rightarrow> bool" where
  "returns (Normal s) = True"
| "returns (Throws e s) = False"

fun final :: "'s completion \<Rightarrow> 's" where
  "final (Normal s) = s"
| "final (Throws e s) = s"

subsection \<open>Row\<close>

record Row =
  type :: string
  elements :: "Measurable list"
  height :: real
  width :: real
  minHeight :: real
  minWidth :: real
  widthWithConnectedBlocks :: real
  yPos :: real
  xPos :: real
  hasExternalInput :: bool
  hasStatement :: bool
  hasInlineInput :: bool
  hasDummyInput :: bool
  hasJaggedEdge :: bool

definition new_Row :: Row where
  "new_Row =
     \<lparr> Row.type = ''row'', elements = [], height = 0, width = 0, minHeight = 0,
       minWidth = 0, widthWithConnectedBlocks = 0, yPos = 0, xPos = 0,
       hasExternalInput = False, hasStatement = False, hasInlineInput = False,
       hasDummyInput = False, hasJaggedEdge = False \<rparr>"

definition Row_measure :: "'a Row_scheme \<Rightarrow> 'a Row_scheme completion" where
  "Row_measure this = Throws (Error ''Unexpected attempt to measure a base Row.'') this"

text \<open>
  \<^verbatim>\<open>this.elements[i]\<close>: \<^verbatim>\<open>undefined\<close> outside the array.
\<close>

definition elementAt :: "'a list \<Rightarrow> int \<Rightarrow> 'a option" where
  "elementAt xs i = (if 0 \<le> i \<and> i < int (length xs) then Some (xs ! nat i) else None)"

text \<open>
  The loops of \<^verbatim>\<open>getFirstSpacer\<close> and \<^verbatim>\<open>getLastSpacer\<close> run while
  \<^verbatim>\<open>elem = this.elements[i]\<close> is truthy, that is while the index is inside the array,
  and return the element as soon as \<^verbatim>\<open>elem.isSpacer\<close> (the property, not a call) is
  truthy.
\<close>

function getFirstSpacer_loop :: "Measurable list \<Rightarrow> int \<Rightarrow> Measurable option" where
  "getFirstSpacer_loop elems i =
     (case elementAt elems i of
        None \<Rightarrow> None
      | Some elem \<Rightarrow>
          if truthy (isSpacer_property elem) then Some elem
          else getFirstSpacer_loop elems (i + 1))"
  by pat_completeness auto
termination
  by (relation "measure (\<lambda>(elems, i). nat (int (length elems) - i))")
     (auto simp: elementAt_def split: if_splits)

function getLastSpacer_loop :: "Measurable list \<Rightarrow> int \<Rightarrow> Measurable option" where
  "getLastSpacer_loop elems i =
     (case elementAt elems i of
        None \<Rightarrow> None
      | Some elem \<Rightarrow>
          if truthy (isSpacer_property elem) then Some elem
          else getLastSpacer_loop elems (i - 1))"
  by pat_completeness auto
termination
  by (relation "measure (\<lambda>(elems, i). nat (i + 1))")
     (auto simp: elementAt_def split: if_splits)

subsection \<open>TopRow\<close>

record TopRow = Row +
  startY :: real
  hasPreviousConnection :: bool
  connection :: "Measurable option"

definition new_TopRow :: TopRow where
  "new_TopRow =
     \<lparr> Row.type = ''top row'', elements = [], height = 0, width = 0, minHeight = 0,
       minWidth = 0, widthWithConnectedBlocks = 0, yPos = 0, xPos = 0,
       hasExternalInput = False, hasStatement = False, hasInlineInput = False,
       hasDummyInput = False, hasJaggedEdge = False,
       TopRow.startY = 0, hasPreviousConnection = False, TopRow.connection = None \<rparr>"

text \<open>
  \<^verbatim>\<open>var hasHat = block.hat ? block.hat === 'cap' : Blockly.BlockSvg.START_HAT\<close>; an
  absent and an empty \<^verbatim>\<open>hat\<close> are falsy.
\<close>

definition hasHat :: "renderer \<Rightarrow> Block \<Rightarrow> bool" where
  "hasHat env block =
     (case hat block of
        None \<Rightarrow> START_HAT env
      | Some s \<Rightarrow> if s \<noteq> [] then s = ''cap'' else START_HAT env)"

text \<open>
  The two places of \<^verbatim>\<open>populate\<close> that read a property of a value that may be
  \<^verbatim>\<open>null\<close> or \<^verbatim>\<open>undefined\<close>: the call \<^verbatim>\<open>prevBlock.getNextBlock()\<close> and the
  read \<^verbatim>\<open>block.inputList[i].type\<close>.
\<close>

definition call_getNextBlock :: "heap \<Rightarrow> block_ref option \<Rightarrow> error + block_ref option" where
  "call_getNextBlock h receiver =
     (case receiver of None \<Rightarrow> Inl TypeError | Some p \<Rightarrow> Inr (getNextBlock (h p)))"

definition read_type :: "Input option \<Rightarrow> error + int" where
  "read_type input = (case input of None \<Rightarrow> Inl TypeError | Some i \<Rightarrow> Inr (Input.type i))"

text \<open>
  \<^verbatim>\<open>!!block.outputConnection || hasHat || (prevBlock && prevBlock.getNextBlock() == block)\<close>,
  with the short-circuit evaluation of \<^verbatim>\<open>||\<close> and \<^verbatim>\<open>&&\<close>.
\<close>

definition TopRow_squareCorner :: "renderer \<Rightarrow> heap \<Rightarrow> block_ref \<Rightarrow> error + bool" where
  "TopRow_squareCorner env h b =
     (let block = h b; prevBlock = getPreviousBlock block in
      if outputConnection block \<noteq> None then Inr True
      else if hasHat env block then Inr True
      else if prevBlock = None then Inr False
      else (case call_getNextBlock h prevBlock of
              Inl e \<Rightarrow> Inl e
            | Inr next \<Rightarrow> Inr (next = Some b)))"

text \<open>
  \<^verbatim>\<open>block.inputList.length && block.inputList[i].type == Blockly.NEXT_STATEMENT\<close>, as a
  truth value (the number 0 of the empty list is falsy).
\<close>

definition inputIsStatement :: "renderer \<Rightarrow> Block \<Rightarrow> int \<Rightarrow> error + bool" where
  "inputIsStatement env block i =
     (if length (inputList block) = 0 then Inr False
      else (case read_type (elementAt (inputList block) i) of
              Inl e \<Rightarrow> Inl e
            | Inr t \<Rightarrow> Inr (t = NEXT_STATEMENT env)))"

definition TopRow_populate ::
  "renderer \<Rightarrow> heap \<Rightarrow> block_ref \<Rightarrow> TopRow \<Rightarrow> TopRow completion" where
  "TopRow_populate env h b this =
     (let block = h b;
          hasPrevious = (previousConnection block \<noteq> None)
      in case TopRow_squareCorner env h b of
           Inl e \<Rightarrow> Throws e this
         | Inr squareCorner \<Rightarrow>
             let this1 =
                   (if squareCorner
                    then this\<lparr>elements := elements this @ [SquareCorner env]\<rparr>
                    else this\<lparr>elements := elements this @ [RoundCorner env]\<rparr>);
                 this2 =
                   (if hasHat env block
                    then this1\<lparr>elements := elements this1 @ [Hat env],
                               TopRow.startY := Measurable.startY (Hat env)\<rparr>
                    else if hasPrevious
                    then (case previousConnection block of
                            None \<Rightarrow> this1
                          | Some c \<Rightarrow>
                              this1\<lparr>hasPreviousConnection := True,
                                    TopRow.connection := Some (PreviousConnection env c),
                                    elements := elements this1 @ [PreviousConnection env c]\<rparr>)
                    else this1)
             in (case inputIsStatement env block 0 of
                   Inl e \<Rightarrow> Throws e this2
                 | Inr precedesStatement \<Rightarrow>
                     if precedesStatement \<and> \<not> isCollapsed block
                     then Normal (this2\<lparr>minHeight := LARGE_PADDING env\<rparr>)
                     else Normal (this2\<lparr>minHeight := MEDIUM_PADDING env\<rparr>)))"

definition TopRow_measure_body :: "Measurable \<Rightarrow> TopRow \<Rightarrow> TopRow" where
  "TopRow_measure_body elem this =
     (let this1 = this\<lparr>width := width this + Measurable.width elem\<rparr> in
      if \<not> isSpacer elem then
        (let this2 =
               (if Measurable.type elem = ''hat''
                then this1\<lparr>TopRow.startY := Measurable.startY elem,
                           height := height this1 + Measurable.height elem\<rparr>
                else this1)
         in this2\<lparr>height := max (height this2) (Measurable.height elem)\<rparr>)
      else this1)"

fun TopRow_measure_loop :: "Measurable list \<Rightarrow> TopRow \<Rightarrow> TopRow" where
  "TopRow_measure_loop [] this = this"
| "TopRow_measure_loop (elem # rest) this =
     TopRow_measure_loop rest (TopRow_measure_body elem this)"

definition TopRow_measure :: "TopRow \<Rightarrow> TopRow" where
  "TopRow_measure this =
     (let this1 = this\<lparr>width := minWidth this, height := minHeight this\<rparr>;
          this2 = TopRow_measure_loop (elements this1) this1
      in this2\<lparr>widthWithConnectedBlocks := width this2\<rparr>)"

subsection \<open>BottomRow\<close>

record BottomRow = Row +
  hasNextConnection :: bool
  connection :: "Measurable option"
  overhangY :: real
  hasFixedWidth :: bool

definition new_BottomRow :: BottomRow where
  "new_BottomRow =
     \<lparr> Row.type = ''bottom row'', elements = [], height = 0, width = 0, minHeight = 0,
       minWidth = 0, widthWithConnectedBlocks = 0, yPos = 0, xPos = 0,
       hasExternalInput = False, hasStatement = False, hasInlineInput = False,
       hasDummyInput = False, hasJaggedEdge = False,
       hasNextConnection = False, BottomRow.connection = None, overhangY = 0,
       hasFixedWidth = False \<rparr>"

text \<open>
  \<open>hasFixedWidth\<close> holds the truth value of
  \<^verbatim>\<open>followsStatement && block.getInputsInline()\<close>.
\<close>

definition BottomRow_populate ::
  "renderer \<Rightarrow> heap \<Rightarrow> block_ref \<Rightarrow> BottomRow \<Rightarrow> BottomRow completion" where
  "BottomRow_populate env h b this =
     (let block = h b;
          this1 = this\<lparr>hasNextConnection := (nextConnection block \<noteq> None)\<rparr>
      in case inputIsStatement env block (int (length (inputList block)) - 1) of
           Inl e \<Rightarrow> Throws e this1
         | Inr followsStatement \<Rightarrow>
             let this2 = this1\<lparr>hasFixedWidth := (followsStatement \<and> getInputsInline block)\<rparr>;
                 this3 =
                   (if followsStatement
                    then this2\<lparr>minHeight := LARGE_PADDING env\<rparr>
                    else this2\<lparr>minHeight := NOTCH_height env\<rparr>);
                 squareCorner =
                   (outputConnection block \<noteq> None \<or> getNextBlock block \<noteq> None);
                 this4 =
                   (if squareCorner
                    then this3\<lparr>elements := elements this3 @ [SquareCorner env]\<rparr>
                    else this3\<lparr>elements := elements this3 @ [RoundCorner env]\<rparr>)
             in if hasNextConnection this4
                then (case nextConnection block of
                        None \<Rightarrow> Normal this4
                      | Some c \<Rightarrow>
                          Normal (this4\<lparr>BottomRow.connection := Some (NextConnection env c),
                                         elements := elements this4 @ [NextConnection env c]\<rparr>))
                else Normal this4)"

definition BottomRow_measure_body :: "Measurable \<Rightarrow> BottomRow \<Rightarrow> BottomRow" where
  "BottomRow_measure_body elem this =
     (let this1 = this\<lparr>width := width this + Measurable.width elem\<rparr> in
      if \<not> isSpacer elem then
        (let this2 =
               (if Measurable.type elem = ''next connection''
                then this1\<lparr>height := height this1 + Measurable.height elem,
                           overhangY := Measurable.height elem\<rparr>
                else this1)
         in this2\<lparr>height := max (height this2) (Measurable.height elem)\<rparr>)
      else this1)"

fun BottomRow_measure_loop :: "Measurable list \<Rightarrow> BottomRow \<Rightarrow> BottomRow" where
  "BottomRow_measure_loop [] this = this"
| "BottomRow_measure_loop (elem # rest) this =
     BottomRow_measure_loop rest (BottomRow_measure_body elem this)"

definition BottomRow_measure :: "BottomRow \<Rightarrow> BottomRow" where
  "BottomRow_measure this =
     (let this1 = this\<lparr>width := minWidth this, height := minHeight this\<rparr>;
          this2 = BottomRow_measure_loop (elements this1) this1
      in this2\<lparr>widthWithConnectedBlocks := width this2\<rparr>)"

subsection \<open>SpacerRow\<close>

text \<open>
  The constructor of \<^verbatim>\<open>SpacerRow\<close> does not call the constructor of \<^verbatim>\<open>Row\<close>: a
  spacer row has the six fields that its own constructor sets.
\<close>

record SpacerRow =
  type :: string
  width :: real
  height :: real
  followsStatement :: bool
  widthWithConnectedBlocks :: real
  elements :: "Measurable list"

definition new_SpacerRow :: "renderer \<Rightarrow> real \<Rightarrow> real \<Rightarrow> SpacerRow" where
  "new_SpacerRow env h w =
     \<lparr> SpacerRow.type = ''between-row spacer'', width = w, height = h,
       followsStatement = False, widthWithConnectedBlocks = 0,
       elements = [InRowSpacer env w] \<rparr>"

definition SpacerRow_measure :: "SpacerRow \<Rightarrow> SpacerRow" where
  "SpacerRow_measure this = this"

subsection \<open>InputRow\<close>

text \<open>
  The constructor of \<^verbatim>\<open>InputRow\<close> calls the constructor of \<^verbatim>\<open>Row\<close> and sets the
  type; an input row has the fields of a row and no others.
\<close>

type_synonym InputRow = Row

definition new_InputRow :: InputRow where
  "new_InputRow = new_Row\<lparr>Row.type := ''input row''\<rparr>"

text \<open>
  The loop of \<^verbatim>\<open>InputRow.measure\<close> carries the row and the local variable
  \<^verbatim>\<open>connectedBlockWidths\<close>.
\<close>

definition InputRow_measure_body :: "Measurable \<Rightarrow> InputRow \<times> real \<Rightarrow> InputRow \<times> real" where
  "InputRow_measure_body elem state =
     (let this = fst state; connectedBlockWidths = snd state;
          this1 = this\<lparr>Row.width := Row.width this + Measurable.width elem\<rparr>;
          connectedBlockWidths1 =
            (if isInput elem then
               (if Measurable.type elem = ''statement input''
                then connectedBlockWidths + connectedBlockWidth elem
                else if Measurable.type elem = ''external value input''
                        \<and> connectedBlockWidth elem \<noteq> 0
                then connectedBlockWidths + (connectedBlockWidth elem - connectionWidth elem)
                else connectedBlockWidths)
             else connectedBlockWidths);
          this2 =
            (if \<not> isSpacer elem
             then this1\<lparr>Row.height := max (Row.height this1) (Measurable.height elem)\<rparr>
             else this1)
      in (this2, connectedBlockWidths1))"

fun InputRow_measure_loop :: "Measurable list \<Rightarrow> InputRow \<times> real \<Rightarrow> InputRow \<times> real" where
  "InputRow_measure_loop [] state = state"
| "InputRow_measure_loop (elem # rest) state =
     InputRow_measure_loop rest (InputRow_measure_body elem state)"

definition InputRow_measure :: "InputRow \<Rightarrow> InputRow" where
  "InputRow_measure this =
     (let this1 = this\<lparr>Row.width := minWidth this, Row.height := minHeight this\<rparr>;
          state = InputRow_measure_loop (Row.elements this1) (this1, 0);
          this2 = fst state; connectedBlockWidths = snd state
      in this2\<lparr>Row.widthWithConnectedBlocks := Row.width this2 + connectedBlockWidths\<rparr>)"

subsection \<open>Method dispatch\<close>

text \<open>
  A row object is an instance of \<^verbatim>\<open>Row\<close> or of one of its four subclasses;
  \<^verbatim>\<open>row.measure()\<close> runs the method of the object's class, and the methods
  \<^verbatim>\<open>getFirstSpacer\<close> and \<^verbatim>\<open>getLastSpacer\<close> of \<^verbatim>\<open>Row.prototype\<close> are inherited by
  all of them.
\<close>

datatype row_object =
  BaseRow Row | Top TopRow | Bottom BottomRow | Spacer SpacerRow | InputR InputRow

fun measure_row :: "row_object \<Rightarrow> row_object completion" where
  "measure_row (BaseRow this) =
     (case Row_measure this of
        Normal this' \<Rightarrow> Normal (BaseRow this')
      | Throws e this' \<Rightarrow> Throws e (BaseRow this'))"
| "measure_row (Top this) = Normal (Top (TopRow_measure this))"
| "measure_row (Bottom this) = Normal (Bottom (BottomRow_measure this))"
| "measure_row (Spacer this) = Normal (Spacer (SpacerRow_measure this))"
| "measure_row (InputR this) = Normal (InputR (InputRow_measure this))"

fun elements_of :: "row_object \<Rightarrow> Measurable list" where
  "elements_of (BaseRow this) = Row.elements this"
| "elements_of (Top this) = Row.elements this"
| "elements_of (Bottom this) = Row.elements this"
| "elements_of (Spacer this) = SpacerRow.elements this"
| "elements_of (InputR this) = Row.elements this"

definition getFirstSpacer :: "row_object \<Rightarrow> Measurable option" where
  "getFirstSpacer this = getFirstSpacer_loop (elements_of this) 0"

definition getLastSpacer :: "row_object \<Rightarrow> Measurable option" where
  "getLastSpacer this =
     getLastSpacer_loop (elements_of this) (int (length (elements_of this)) - 1)"

section \<open>The measure methods as the code runs them\<close>

text \<open>
  The functions above give the row after \<^verbatim>\<open>measure\<close> in exact arithmetic, by
  recursion over the list of elements. The code adds and subtracts doubles, which rounds,
  and walks the array by index, reading \<^verbatim>\<open>this.elements[e]\<close>. Here both are written
  out. A finite double is a real number, and the comparisons and \<^verbatim>\<open>Math.max\<close> of
  finite doubles are those of the real numbers; \<^verbatim>\<open>+\<close> and \<^verbatim>\<open>-\<close> are parameters,
  with no law assumed of them, so what is proved of these methods holds for the rounding
  operations of JavaScript. \<open>exact\<close> is the arithmetic that does not round.
\<close>

record arithmetic =
  add :: "real \<Rightarrow> real \<Rightarrow> real"
  sub :: "real \<Rightarrow> real \<Rightarrow> real"

definition exact :: arithmetic where
  "exact = \<lparr> add = (+), sub = (-) \<rparr>"

text \<open>
  The \<^verbatim>\<open>for\<close> loops run while \<^verbatim>\<open>e < this.elements.length\<close>. Reading a property
  of \<^verbatim>\<open>this.elements[e]\<close> throws a \<open>TypeError\<close> if the array has no element at
  \<open>e\<close>.
\<close>

definition TopRow_measure_step :: "arithmetic \<Rightarrow> Measurable \<Rightarrow> TopRow \<Rightarrow> TopRow" where
  "TopRow_measure_step ar elem this =
     (let this1 = this\<lparr>Row.width := add ar (Row.width this) (Measurable.width elem)\<rparr> in
      if \<not> isSpacer elem then
        (let this2 =
               (if Measurable.type elem = ''hat''
                then this1\<lparr>TopRow.startY := Measurable.startY elem,
                           Row.height := add ar (Row.height this1) (Measurable.height elem)\<rparr>
                else this1)
         in this2\<lparr>Row.height := max (Row.height this2) (Measurable.height elem)\<rparr>)
      else this1)"

function TopRow_measure_for :: "arithmetic \<Rightarrow> nat \<Rightarrow> TopRow \<Rightarrow> TopRow completion" where
  "TopRow_measure_for ar e this =
     (if e < length (Row.elements this) then
        (case elementAt (Row.elements this) (int e) of
           None \<Rightarrow> Throws TypeError this
         | Some elem \<Rightarrow> TopRow_measure_for ar (e + 1) (TopRow_measure_step ar elem this))
      else Normal this)"
  by pat_completeness auto
termination
  by (relation "measure (\<lambda>(ar, e, this). length (Row.elements this) - e)")
     (auto simp: TopRow_measure_step_def Let_def)

declare TopRow_measure_for.simps [simp del]

definition TopRow_measure_call :: "arithmetic \<Rightarrow> TopRow \<Rightarrow> TopRow completion" where
  "TopRow_measure_call ar this =
     (let this1 = this\<lparr>Row.width := minWidth this, Row.height := minHeight this\<rparr> in
      case TopRow_measure_for ar 0 this1 of
        Throws err this2 \<Rightarrow> Throws err this2
      | Normal this2 \<Rightarrow>
          Normal (this2\<lparr>Row.widthWithConnectedBlocks := Row.width this2\<rparr>))"

definition BottomRow_measure_step ::
  "arithmetic \<Rightarrow> Measurable \<Rightarrow> BottomRow \<Rightarrow> BottomRow" where
  "BottomRow_measure_step ar elem this =
     (let this1 = this\<lparr>Row.width := add ar (Row.width this) (Measurable.width elem)\<rparr> in
      if \<not> isSpacer elem then
        (let this2 =
               (if Measurable.type elem = ''next connection''
                then this1\<lparr>Row.height := add ar (Row.height this1) (Measurable.height elem),
                           overhangY := Measurable.height elem\<rparr>
                else this1)
         in this2\<lparr>Row.height := max (Row.height this2) (Measurable.height elem)\<rparr>)
      else this1)"

function BottomRow_measure_for ::
  "arithmetic \<Rightarrow> nat \<Rightarrow> BottomRow \<Rightarrow> BottomRow completion" where
  "BottomRow_measure_for ar e this =
     (if e < length (Row.elements this) then
        (case elementAt (Row.elements this) (int e) of
           None \<Rightarrow> Throws TypeError this
         | Some elem \<Rightarrow>
             BottomRow_measure_for ar (e + 1) (BottomRow_measure_step ar elem this))
      else Normal this)"
  by pat_completeness auto
termination
  by (relation "measure (\<lambda>(ar, e, this). length (Row.elements this) - e)")
     (auto simp: BottomRow_measure_step_def Let_def)

declare BottomRow_measure_for.simps [simp del]

definition BottomRow_measure_call :: "arithmetic \<Rightarrow> BottomRow \<Rightarrow> BottomRow completion" where
  "BottomRow_measure_call ar this =
     (let this1 = this\<lparr>Row.width := minWidth this, Row.height := minHeight this\<rparr> in
      case BottomRow_measure_for ar 0 this1 of
        Throws err this2 \<Rightarrow> Throws err this2
      | Normal this2 \<Rightarrow>
          Normal (this2\<lparr>Row.widthWithConnectedBlocks := Row.width this2\<rparr>))"

definition SpacerRow_measure_call :: "SpacerRow \<Rightarrow> SpacerRow completion" where
  "SpacerRow_measure_call this = Normal this"

definition InputRow_measure_step ::
  "arithmetic \<Rightarrow> Measurable \<Rightarrow> InputRow \<times> real \<Rightarrow> InputRow \<times> real" where
  "InputRow_measure_step ar elem state =
     (let this = fst state; connectedBlockWidths = snd state;
          this1 = this\<lparr>Row.width := add ar (Row.width this) (Measurable.width elem)\<rparr>;
          connectedBlockWidths1 =
            (if isInput elem then
               (if Measurable.type elem = ''statement input''
                then add ar connectedBlockWidths (connectedBlockWidth elem)
                else if Measurable.type elem = ''external value input''
                        \<and> connectedBlockWidth elem \<noteq> 0
                then add ar connectedBlockWidths
                       (sub ar (connectedBlockWidth elem) (connectionWidth elem))
                else connectedBlockWidths)
             else connectedBlockWidths);
          this2 =
            (if \<not> isSpacer elem
             then this1\<lparr>Row.height := max (Row.height this1) (Measurable.height elem)\<rparr>
             else this1)
      in (this2, connectedBlockWidths1))"

function InputRow_measure_for ::
  "arithmetic \<Rightarrow> nat \<Rightarrow> InputRow \<times> real \<Rightarrow> (InputRow \<times> real) completion" where
  "InputRow_measure_for ar e state =
     (if e < length (Row.elements (fst state)) then
        (case elementAt (Row.elements (fst state)) (int e) of
           None \<Rightarrow> Throws TypeError state
         | Some elem \<Rightarrow>
             InputRow_measure_for ar (e + 1) (InputRow_measure_step ar elem state))
      else Normal state)"
  by pat_completeness auto
termination
  by (relation "measure (\<lambda>(ar, e, state). length (Row.elements (fst state)) - e)")
     (auto simp: InputRow_measure_step_def Let_def)

declare InputRow_measure_for.simps [simp del]

definition InputRow_measure_call :: "arithmetic \<Rightarrow> InputRow \<Rightarrow> InputRow completion" where
  "InputRow_measure_call ar this =
     (let this1 = this\<lparr>Row.width := minWidth this, Row.height := minHeight this\<rparr> in
      case InputRow_measure_for ar 0 (this1, 0) of
        Throws err state \<Rightarrow> Throws err (fst state)
      | Normal state \<Rightarrow>
          Normal ((fst state)\<lparr>Row.widthWithConnectedBlocks :=
                     add ar (Row.width (fst state)) (snd state)\<rparr>))"

text \<open>
  \<^verbatim>\<open>row.measure()\<close> on a row object, with the arithmetic of the code.
\<close>

fun measure_call :: "arithmetic \<Rightarrow> row_object \<Rightarrow> row_object completion" where
  "measure_call ar (BaseRow this) =
     (case Row_measure this of
        Normal this' \<Rightarrow> Normal (BaseRow this')
      | Throws err this' \<Rightarrow> Throws err (BaseRow this'))"
| "measure_call ar (Top this) =
     (case TopRow_measure_call ar this of
        Normal this' \<Rightarrow> Normal (Top this')
      | Throws err this' \<Rightarrow> Throws err (Top this'))"
| "measure_call ar (Bottom this) =
     (case BottomRow_measure_call ar this of
        Normal this' \<Rightarrow> Normal (Bottom this')
      | Throws err this' \<Rightarrow> Throws err (Bottom this'))"
| "measure_call ar (Spacer this) =
     (case SpacerRow_measure_call this of
        Normal this' \<Rightarrow> Normal (Spacer this')
      | Throws err this' \<Rightarrow> Throws err (Spacer this'))"
| "measure_call ar (InputR this) =
     (case InputRow_measure_call ar this of
        Normal this' \<Rightarrow> Normal (InputR this')
      | Throws err this' \<Rightarrow> Throws err (InputR this'))"

section \<open>Example elements\<close>

text \<open>
  Elements on which the rows are run below: a hat, a corner, a spacer, a next connection,
  a statement input, and an external value input whose connection is wider than the
  block connected to it.
\<close>

definition example_hat :: Measurable where
  "example_hat =
     \<lparr> Measurable.type = ''hat'', width = 2, height = 5, isInput = False,
       isSpacer = False, startY = 5, connectedBlockWidth = 0, connectionWidth = 0 \<rparr>"

definition example_corner :: Measurable where
  "example_corner =
     \<lparr> Measurable.type = ''round corner'', width = 8, height = 4, isInput = False,
       isSpacer = False, startY = 0, connectedBlockWidth = 0, connectionWidth = 0 \<rparr>"

definition example_spacer :: Measurable where
  "example_spacer =
     \<lparr> Measurable.type = ''in-row spacer'', width = 3, height = 20, isInput = False,
       isSpacer = True, startY = 0, connectedBlockWidth = 0, connectionWidth = 0 \<rparr>"

definition example_next :: Measurable where
  "example_next =
     \<lparr> Measurable.type = ''next connection'', width = 6, height = 4, isInput = False,
       isSpacer = False, startY = 0, connectedBlockWidth = 0, connectionWidth = 0 \<rparr>"

definition example_statement :: Measurable where
  "example_statement =
     \<lparr> Measurable.type = ''statement input'', width = 10, height = 12, isInput = True,
       isSpacer = False, startY = 0, connectedBlockWidth = 30, connectionWidth = 6 \<rparr>"

definition example_external :: Measurable where
  "example_external =
     \<lparr> Measurable.type = ''external value input'', width = 2, height = 6, isInput = True,
       isSpacer = False, startY = 0, connectedBlockWidth = 1, connectionWidth = 8 \<rparr>"

text \<open>
  A renderer and a heap of two blocks to run \<^verbatim>\<open>populate\<close> on: block 0 has a cap hat, a
  next connection and a next block, block 1; block 1 has a previous connection and hangs
  below block 0.
\<close>

definition example_square :: Measurable where
  "example_square =
     \<lparr> Measurable.type = ''square corner'', width = 0, height = 4, isInput = False,
       isSpacer = False, startY = 0, connectedBlockWidth = 0, connectionWidth = 0 \<rparr>"

definition example_previous :: Measurable where
  "example_previous =
     \<lparr> Measurable.type = ''previous connection'', width = 6, height = 4, isInput = False,
       isSpacer = False, startY = 0, connectedBlockWidth = 0, connectionWidth = 0 \<rparr>"

definition example_renderer :: renderer where
  "example_renderer =
     \<lparr> START_HAT = False, NEXT_STATEMENT = 3, LARGE_PADDING = 10, MEDIUM_PADDING = 7,
       NOTCH_height = 4, SquareCorner = example_square, RoundCorner = example_corner,
       Hat = example_hat, PreviousConnection = (\<lambda>c. example_previous),
       NextConnection = (\<lambda>c. example_next),
       InRowSpacer = (\<lambda>w. example_spacer\<lparr>Measurable.width := w\<rparr>) \<rparr>"

definition example_block_hat :: Block where
  "example_block_hat =
     \<lparr> hat = Some ''cap'', outputConnection = None, previousConnection = None,
       nextConnection = Some 10, getPreviousBlock = None, getNextBlock = Some 1,
       inputList = [\<lparr>Input.type = 5\<rparr>, \<lparr>Input.type = 3\<rparr>], isCollapsed = False,
       getInputsInline = False \<rparr>"

definition example_block_stacked :: Block where
  "example_block_stacked =
     \<lparr> hat = None, outputConnection = None, previousConnection = Some 11,
       nextConnection = None, getPreviousBlock = Some 0, getNextBlock = None,
       inputList = [], isCollapsed = False, getInputsInline = False \<rparr>"

definition example_heap :: heap where
  "example_heap r = (if r = 0 then example_block_hat else example_block_stacked)"

abbreviation nonnegative_element :: "Measurable \<Rightarrow> bool" where
  "nonnegative_element e \<equiv>
     0 \<le> Measurable.width e \<and> 0 \<le> Measurable.height e \<and> 0 \<le> connectedBlockWidth e
     \<and> 0 \<le> connectionWidth e \<and> 0 \<le> Measurable.startY e"

lemmas examples = example_hat_def example_corner_def example_spacer_def example_next_def
  example_statement_def example_external_def

lemmas measure_defs = TopRow_measure_def TopRow_measure_body_def BottomRow_measure_def
  BottomRow_measure_body_def InputRow_measure_def InputRow_measure_body_def
  SpacerRow_measure_def Let_def new_TopRow_def new_BottomRow_def new_InputRow_def new_Row_def

section \<open>Properties of the measuring loops\<close>

subsection \<open>What the loops leave alone\<close>

lemma TopRow_measure_body_frame:
  "\<exists>w h s. TopRow_measure_body e r =
     r\<lparr>Row.width := w, Row.height := h, TopRow.startY := s\<rparr>"
proof -
  have "TopRow_measure_body e r =
     r\<lparr>Row.width := Row.width (TopRow_measure_body e r),
       Row.height := Row.height (TopRow_measure_body e r),
       TopRow.startY := TopRow.startY (TopRow_measure_body e r)\<rparr>"
    by (simp add: TopRow_measure_body_def Let_def)
  then show ?thesis by blast
qed

lemma TopRow_measure_loop_frame:
  "\<exists>w h s. TopRow_measure_loop es r =
     r\<lparr>Row.width := w, Row.height := h, TopRow.startY := s\<rparr>"
proof (induction es arbitrary: r)
  case Nil
  have "r = r\<lparr>Row.width := Row.width r, Row.height := Row.height r,
               TopRow.startY := TopRow.startY r\<rparr>"
    by simp
  then show ?case by (metis TopRow_measure_loop.simps(1))
next
  case (Cons e es)
  obtain w1 h1 s1 where body: "TopRow_measure_body e r =
     r\<lparr>Row.width := w1, Row.height := h1, TopRow.startY := s1\<rparr>"
    using TopRow_measure_body_frame by blast
  obtain w h s where rest: "TopRow_measure_loop es (TopRow_measure_body e r) =
     (TopRow_measure_body e r)\<lparr>Row.width := w, Row.height := h, TopRow.startY := s\<rparr>"
    using Cons.IH by blast
  have "TopRow_measure_loop (e # es) r =
     r\<lparr>Row.width := w, Row.height := h, TopRow.startY := s\<rparr>"
    by (simp add: rest) (simp add: body)
  then show ?case by blast
qed

lemma TopRow_measure_frame:
  "\<exists>w h s c. TopRow_measure r =
     r\<lparr>Row.width := w, Row.height := h, TopRow.startY := s,
       Row.widthWithConnectedBlocks := c\<rparr>"
proof -
  let ?r1 = "r\<lparr>Row.width := minWidth r, Row.height := minHeight r\<rparr>"
  obtain w h s where loop: "TopRow_measure_loop (Row.elements ?r1) ?r1 =
     ?r1\<lparr>Row.width := w, Row.height := h, TopRow.startY := s\<rparr>"
    using TopRow_measure_loop_frame by blast
  have "TopRow_measure r =
     r\<lparr>Row.width := w, Row.height := h, TopRow.startY := s,
       Row.widthWithConnectedBlocks := w\<rparr>"
    unfolding TopRow_measure_def Let_def loop by simp
  then show ?thesis by blast
qed

lemma BottomRow_measure_body_frame:
  "\<exists>w h v. BottomRow_measure_body e r =
     r\<lparr>Row.width := w, Row.height := h, overhangY := v\<rparr>"
proof -
  have "BottomRow_measure_body e r =
     r\<lparr>Row.width := Row.width (BottomRow_measure_body e r),
       Row.height := Row.height (BottomRow_measure_body e r),
       overhangY := overhangY (BottomRow_measure_body e r)\<rparr>"
    by (simp add: BottomRow_measure_body_def Let_def)
  then show ?thesis by blast
qed

lemma BottomRow_measure_loop_frame:
  "\<exists>w h v. BottomRow_measure_loop es r =
     r\<lparr>Row.width := w, Row.height := h, overhangY := v\<rparr>"
proof (induction es arbitrary: r)
  case Nil
  have "r = r\<lparr>Row.width := Row.width r, Row.height := Row.height r,
               overhangY := overhangY r\<rparr>"
    by simp
  then show ?case by (metis BottomRow_measure_loop.simps(1))
next
  case (Cons e es)
  obtain w1 h1 v1 where body: "BottomRow_measure_body e r =
     r\<lparr>Row.width := w1, Row.height := h1, overhangY := v1\<rparr>"
    using BottomRow_measure_body_frame by blast
  obtain w h v where rest: "BottomRow_measure_loop es (BottomRow_measure_body e r) =
     (BottomRow_measure_body e r)\<lparr>Row.width := w, Row.height := h, overhangY := v\<rparr>"
    using Cons.IH by blast
  have "BottomRow_measure_loop (e # es) r =
     r\<lparr>Row.width := w, Row.height := h, overhangY := v\<rparr>"
    by (simp add: rest) (simp add: body)
  then show ?case by blast
qed

lemma BottomRow_measure_frame:
  "\<exists>w h v c. BottomRow_measure r =
     r\<lparr>Row.width := w, Row.height := h, overhangY := v,
       Row.widthWithConnectedBlocks := c\<rparr>"
proof -
  let ?r1 = "r\<lparr>Row.width := minWidth r, Row.height := minHeight r\<rparr>"
  obtain w h v where loop: "BottomRow_measure_loop (Row.elements ?r1) ?r1 =
     ?r1\<lparr>Row.width := w, Row.height := h, overhangY := v\<rparr>"
    using BottomRow_measure_loop_frame by blast
  have "BottomRow_measure r =
     r\<lparr>Row.width := w, Row.height := h, overhangY := v,
       Row.widthWithConnectedBlocks := w\<rparr>"
    unfolding BottomRow_measure_def Let_def loop by simp
  then show ?thesis by blast
qed

lemma InputRow_measure_body_frame:
  "\<exists>w h. fst (InputRow_measure_body e st) = (fst st)\<lparr>Row.width := w, Row.height := h\<rparr>"
proof -
  have "fst (InputRow_measure_body e st) =
     (fst st)\<lparr>Row.width := Row.width (fst (InputRow_measure_body e st)),
              Row.height := Row.height (fst (InputRow_measure_body e st))\<rparr>"
    by (simp add: InputRow_measure_body_def Let_def)
  then show ?thesis by blast
qed

lemma InputRow_measure_loop_frame:
  "\<exists>w h. fst (InputRow_measure_loop es st) = (fst st)\<lparr>Row.width := w, Row.height := h\<rparr>"
proof (induction es arbitrary: st)
  case Nil
  have "fst st = (fst st)\<lparr>Row.width := Row.width (fst st), Row.height := Row.height (fst st)\<rparr>"
    by simp
  then show ?case by (metis InputRow_measure_loop.simps(1))
next
  case (Cons e es)
  obtain w1 h1 where body: "fst (InputRow_measure_body e st) =
     (fst st)\<lparr>Row.width := w1, Row.height := h1\<rparr>"
    using InputRow_measure_body_frame by blast
  obtain w h where rest: "fst (InputRow_measure_loop es (InputRow_measure_body e st)) =
     (fst (InputRow_measure_body e st))\<lparr>Row.width := w, Row.height := h\<rparr>"
    using Cons.IH by blast
  have "fst (InputRow_measure_loop (e # es) st) = (fst st)\<lparr>Row.width := w, Row.height := h\<rparr>"
    by (simp add: rest) (simp add: body)
  then show ?case by blast
qed

lemma InputRow_measure_frame:
  "\<exists>w h c. InputRow_measure r =
     r\<lparr>Row.width := w, Row.height := h, Row.widthWithConnectedBlocks := c\<rparr>"
proof -
  let ?r1 = "r\<lparr>Row.width := minWidth r, Row.height := minHeight r\<rparr>"
  obtain w h where loop: "fst (InputRow_measure_loop (Row.elements ?r1) (?r1, 0)) =
     ?r1\<lparr>Row.width := w, Row.height := h\<rparr>"
    using InputRow_measure_loop_frame [of "Row.elements ?r1" "(?r1, 0)"] by auto
  have "InputRow_measure r =
     r\<lparr>Row.width := w, Row.height := h,
       Row.widthWithConnectedBlocks :=
         w + snd (InputRow_measure_loop (Row.elements ?r1) (?r1, 0))\<rparr>"
    unfolding InputRow_measure_def Let_def loop by simp
  then show ?thesis by blast
qed

section \<open>The abstract method of the base class\<close>

text \<open>
  Claim C5. Calling \<^verbatim>\<open>measure\<close> on a base \<^verbatim>\<open>Row\<close> throws, whatever the state of the
  row: the call does not return, the error is the one of the abstract-method guard, and
  the row is in the same state after the throw as before the call. This holds for the
  method itself and for the call dispatched on an object of class \<^verbatim>\<open>Row\<close>.
\<close>

theorem Row_measure_throws:
  "\<not> returns (Row_measure this)
   \<and> Row_measure this = Throws (Error ''Unexpected attempt to measure a base Row.'') this
   \<and> final (Row_measure this) = this
   \<and> measure_row (BaseRow r) =
       Throws (Error ''Unexpected attempt to measure a base Row.'') (BaseRow r)"
  by (simp add: Row_measure_def)

section \<open>The frame of measure\<close>

text \<open>
  Claim C7. On every concrete row, \<^verbatim>\<open>measure\<close> changes nothing but the size fields of
  the row it is called on: \<^verbatim>\<open>width\<close>, \<^verbatim>\<open>height\<close> and \<^verbatim>\<open>widthWithConnectedBlocks\<close>,
  and also \<^verbatim>\<open>startY\<close> on a top row and \<^verbatim>\<open>overhangY\<close> on a bottom row. The row after
  the call is the row before the call with new values in these fields, so the array of
  elements, each element in it and every other field are as they were; a spacer row is
  not changed at all. The method is a function of the row alone and returns the row
  alone: it reaches no other state.
\<close>

theorem measure_frame:
  "(\<exists>w h s c. TopRow_measure t =
       t\<lparr>Row.width := w, Row.height := h, TopRow.startY := s,
         Row.widthWithConnectedBlocks := c\<rparr>)
   \<and> (\<exists>w h v c. BottomRow_measure b =
       b\<lparr>Row.width := w, Row.height := h, overhangY := v,
         Row.widthWithConnectedBlocks := c\<rparr>)
   \<and> (\<exists>w h c. InputRow_measure i =
       i\<lparr>Row.width := w, Row.height := h, Row.widthWithConnectedBlocks := c\<rparr>)
   \<and> SpacerRow_measure s = s
   \<and> Row.elements (TopRow_measure t) = Row.elements t
   \<and> Row.elements (BottomRow_measure b) = Row.elements b
   \<and> Row.elements (InputRow_measure i) = Row.elements i
   \<and> SpacerRow.elements (SpacerRow_measure s) = SpacerRow.elements s"
proof -
  obtain w1 h1 s1 c1 where top: "TopRow_measure t =
       t\<lparr>Row.width := w1, Row.height := h1, TopRow.startY := s1,
         Row.widthWithConnectedBlocks := c1\<rparr>"
    using TopRow_measure_frame by blast
  obtain w2 h2 v2 c2 where bottom: "BottomRow_measure b =
       b\<lparr>Row.width := w2, Row.height := h2, overhangY := v2,
         Row.widthWithConnectedBlocks := c2\<rparr>"
    using BottomRow_measure_frame by blast
  obtain w3 h3 c3 where input: "InputRow_measure i =
       i\<lparr>Row.width := w3, Row.height := h3, Row.widthWithConnectedBlocks := c3\<rparr>"
    using InputRow_measure_frame by blast
  have "Row.elements (TopRow_measure t) = Row.elements t"
    by (simp add: top)
  moreover have "Row.elements (BottomRow_measure b) = Row.elements b"
    by (simp add: bottom)
  moreover have "Row.elements (InputRow_measure i) = Row.elements i"
    by (simp add: input)
  moreover have "SpacerRow_measure s = s"
    by (simp add: SpacerRow_measure_def)
  ultimately show ?thesis
    using TopRow_measure_frame BottomRow_measure_frame InputRow_measure_frame by simp
qed

section \<open>Width, height and the other sizes after measure\<close>

subsection \<open>The fields after the loops\<close>

lemma TopRow_measure_loop_width:
  "Row.width (TopRow_measure_loop es r) = Row.width r + sum_list (map Measurable.width es)"
  by (induction es arbitrary: r) (simp_all add: TopRow_measure_body_def Let_def)

lemma TopRow_measure_loop_height:
  "Row.height (TopRow_measure_loop es r) =
     fold (\<lambda>e h. if isSpacer e then h
                  else max (if Measurable.type e = ''hat'' then h + Measurable.height e else h)
                           (Measurable.height e))
          es (Row.height r)"
  by (induction es arbitrary: r) (simp_all add: TopRow_measure_body_def Let_def)

lemma TopRow_measure_loop_startY:
  "TopRow.startY (TopRow_measure_loop es r) =
     fold (\<lambda>e s. if \<not> isSpacer e \<and> Measurable.type e = ''hat'' then Measurable.startY e else s)
          es (TopRow.startY r)"
  by (induction es arbitrary: r) (simp_all add: TopRow_measure_body_def Let_def)

lemma BottomRow_measure_loop_width:
  "Row.width (BottomRow_measure_loop es r) = Row.width r + sum_list (map Measurable.width es)"
  by (induction es arbitrary: r) (simp_all add: BottomRow_measure_body_def Let_def)

lemma BottomRow_measure_loop_height:
  "Row.height (BottomRow_measure_loop es r) =
     fold (\<lambda>e h. if isSpacer e then h
                  else max (if Measurable.type e = ''next connection''
                            then h + Measurable.height e else h)
                           (Measurable.height e))
          es (Row.height r)"
  by (induction es arbitrary: r) (simp_all add: BottomRow_measure_body_def Let_def)

lemma BottomRow_measure_loop_overhangY:
  "overhangY (BottomRow_measure_loop es r) =
     fold (\<lambda>e v. if \<not> isSpacer e \<and> Measurable.type e = ''next connection''
                  then Measurable.height e else v)
          es (overhangY r)"
  by (induction es arbitrary: r) (simp_all add: BottomRow_measure_body_def Let_def)

lemma InputRow_measure_loop_width:
  "Row.width (fst (InputRow_measure_loop es st)) =
     Row.width (fst st) + sum_list (map Measurable.width es)"
  by (induction es arbitrary: st) (simp_all add: InputRow_measure_body_def Let_def)

lemma InputRow_measure_loop_height:
  "Row.height (fst (InputRow_measure_loop es st)) =
     fold max (map Measurable.height (filter (\<lambda>e. \<not> isSpacer e) es)) (Row.height (fst st))"
  by (induction es arbitrary: st)
     (simp_all add: InputRow_measure_body_def Let_def max.commute)

lemma InputRow_measure_loop_connected:
  "snd (InputRow_measure_loop es st) = snd st +
     sum_list (map (\<lambda>e. if isInput e \<and> Measurable.type e = ''statement input''
                         then connectedBlockWidth e
                         else if isInput e \<and> Measurable.type e = ''external value input''
                                 \<and> connectedBlockWidth e \<noteq> 0
                         then connectedBlockWidth e - connectionWidth e else 0) es)"
  by (induction es arbitrary: st) (simp_all add: InputRow_measure_body_def Let_def)

subsection \<open>The fields after measure\<close>

lemma TopRow_measure_width:
  "Row.width (TopRow_measure t) =
     minWidth t + sum_list (map Measurable.width (Row.elements t))"
  by (simp add: TopRow_measure_def Let_def TopRow_measure_loop_width)

lemma TopRow_measure_height:
  "Row.height (TopRow_measure t) =
     fold (\<lambda>e h. if isSpacer e then h
                  else max (if Measurable.type e = ''hat'' then h + Measurable.height e else h)
                           (Measurable.height e))
          (Row.elements t) (minHeight t)"
  by (simp add: TopRow_measure_def Let_def TopRow_measure_loop_height)

lemma TopRow_measure_startY:
  "TopRow.startY (TopRow_measure t) =
     fold (\<lambda>e s. if \<not> isSpacer e \<and> Measurable.type e = ''hat'' then Measurable.startY e else s)
          (Row.elements t) (TopRow.startY t)"
  by (simp add: TopRow_measure_def Let_def TopRow_measure_loop_startY)

lemma TopRow_measure_connected:
  "Row.widthWithConnectedBlocks (TopRow_measure t) = Row.width (TopRow_measure t)"
  by (simp add: TopRow_measure_def Let_def)

lemma BottomRow_measure_width:
  "Row.width (BottomRow_measure b) =
     minWidth b + sum_list (map Measurable.width (Row.elements b))"
  by (simp add: BottomRow_measure_def Let_def BottomRow_measure_loop_width)

lemma BottomRow_measure_height:
  "Row.height (BottomRow_measure b) =
     fold (\<lambda>e h. if isSpacer e then h
                  else max (if Measurable.type e = ''next connection''
                            then h + Measurable.height e else h)
                           (Measurable.height e))
          (Row.elements b) (minHeight b)"
  by (simp add: BottomRow_measure_def Let_def BottomRow_measure_loop_height)

lemma BottomRow_measure_overhangY:
  "overhangY (BottomRow_measure b) =
     fold (\<lambda>e v. if \<not> isSpacer e \<and> Measurable.type e = ''next connection''
                  then Measurable.height e else v)
          (Row.elements b) (overhangY b)"
  by (simp add: BottomRow_measure_def Let_def BottomRow_measure_loop_overhangY)

lemma BottomRow_measure_connected:
  "Row.widthWithConnectedBlocks (BottomRow_measure b) = Row.width (BottomRow_measure b)"
  by (simp add: BottomRow_measure_def Let_def)

lemma InputRow_measure_width:
  "Row.width (InputRow_measure i) =
     minWidth i + sum_list (map Measurable.width (Row.elements i))"
  by (simp add: InputRow_measure_def Let_def InputRow_measure_loop_width)

lemma InputRow_measure_height:
  "Row.height (InputRow_measure i) =
     fold max (map Measurable.height (filter (\<lambda>e. \<not> isSpacer e) (Row.elements i)))
          (minHeight i)"
  by (simp add: InputRow_measure_def Let_def InputRow_measure_loop_height)

lemma InputRow_measure_connected:
  "Row.widthWithConnectedBlocks (InputRow_measure i) =
     Row.width (InputRow_measure i) +
     sum_list (map (\<lambda>e. if isInput e \<and> Measurable.type e = ''statement input''
                         then connectedBlockWidth e
                         else if isInput e \<and> Measurable.type e = ''external value input''
                                 \<and> connectedBlockWidth e \<noteq> 0
                         then connectedBlockWidth e - connectionWidth e else 0)
                   (Row.elements i))"
  by (simp add: InputRow_measure_def Let_def InputRow_measure_loop_connected)

subsection \<open>Maxima and signs\<close>

lemma fold_height_nonnegative:
  "0 \<le> (h0::real) \<Longrightarrow> list_all (\<lambda>e. 0 \<le> Measurable.height e) es \<Longrightarrow>
   0 \<le> fold (\<lambda>e h. if isSpacer e then h
                    else max (if Measurable.type e = t then h + Measurable.height e else h)
                             (Measurable.height e))
            es h0"
  by (induction es arbitrary: h0) auto

lemma fold_max_nonnegative:
  "0 \<le> (h0::real) \<Longrightarrow> 0 \<le> fold max hs h0"
  by (induction hs arbitrary: h0) auto

lemma fold_choice_nonnegative:
  "0 \<le> (s0::real) \<Longrightarrow> list_all (\<lambda>e. 0 \<le> f e) es \<Longrightarrow>
   0 \<le> fold (\<lambda>e s. if p e then f e else s) es s0"
  by (induction es arbitrary: s0) auto

lemma sum_list_map_nonnegative:
  "list_all (\<lambda>e. 0 \<le> f e) es \<Longrightarrow> 0 \<le> sum_list (map f es :: real list)"
  by (induction es) auto

section \<open>The loops by index\<close>

lemma elementAt_nth: "e < length xs \<Longrightarrow> elementAt xs (int e) = Some (xs ! e)"
  by (simp add: elementAt_def)

lemma TopRow_measure_step_elements:
  "Row.elements (TopRow_measure_step ar elem this) = Row.elements this"
  by (simp add: TopRow_measure_step_def Let_def)

lemma BottomRow_measure_step_elements:
  "Row.elements (BottomRow_measure_step ar elem this) = Row.elements this"
  by (simp add: BottomRow_measure_step_def Let_def)

lemma InputRow_measure_step_elements:
  "Row.elements (fst (InputRow_measure_step ar elem state)) = Row.elements (fst state)"
  by (simp add: InputRow_measure_step_def Let_def)

lemma TopRow_measure_for_fold:
  "TopRow_measure_for ar e this =
     Normal (fold (TopRow_measure_step ar) (drop e (Row.elements this)) this)"
proof (induction ar e this rule: TopRow_measure_for.induct)
  case (1 ar e this)
  show ?case
  proof (cases "e < length (Row.elements this)")
    case True
    let ?elem = "Row.elements this ! e"
    have at: "elementAt (Row.elements this) (int e) = Some ?elem"
      using True by (rule elementAt_nth)
    have rest: "TopRow_measure_for ar (e + 1) (TopRow_measure_step ar ?elem this) =
       Normal (fold (TopRow_measure_step ar) (drop (e + 1) (Row.elements this))
                 (TopRow_measure_step ar ?elem this))"
      using "1.IH" [OF True at] by (simp add: TopRow_measure_step_elements)
    have "drop e (Row.elements this) = ?elem # drop (e + 1) (Row.elements this)"
      using True by (simp add: Cons_nth_drop_Suc)
    then have "fold (TopRow_measure_step ar) (drop e (Row.elements this)) this =
       fold (TopRow_measure_step ar) (drop (e + 1) (Row.elements this))
         (TopRow_measure_step ar ?elem this)"
      by simp
    with True at rest show ?thesis
      by (subst TopRow_measure_for.simps) simp
  next
    case False
    then show ?thesis
      by (subst TopRow_measure_for.simps) simp
  qed
qed

lemma BottomRow_measure_for_fold:
  "BottomRow_measure_for ar e this =
     Normal (fold (BottomRow_measure_step ar) (drop e (Row.elements this)) this)"
proof (induction ar e this rule: BottomRow_measure_for.induct)
  case (1 ar e this)
  show ?case
  proof (cases "e < length (Row.elements this)")
    case True
    let ?elem = "Row.elements this ! e"
    have at: "elementAt (Row.elements this) (int e) = Some ?elem"
      using True by (rule elementAt_nth)
    have rest: "BottomRow_measure_for ar (e + 1) (BottomRow_measure_step ar ?elem this) =
       Normal (fold (BottomRow_measure_step ar) (drop (e + 1) (Row.elements this))
                 (BottomRow_measure_step ar ?elem this))"
      using "1.IH" [OF True at] by (simp add: BottomRow_measure_step_elements)
    have "drop e (Row.elements this) = ?elem # drop (e + 1) (Row.elements this)"
      using True by (simp add: Cons_nth_drop_Suc)
    then have "fold (BottomRow_measure_step ar) (drop e (Row.elements this)) this =
       fold (BottomRow_measure_step ar) (drop (e + 1) (Row.elements this))
         (BottomRow_measure_step ar ?elem this)"
      by simp
    with True at rest show ?thesis
      by (subst BottomRow_measure_for.simps) simp
  next
    case False
    then show ?thesis
      by (subst BottomRow_measure_for.simps) simp
  qed
qed

lemma InputRow_measure_for_fold:
  "InputRow_measure_for ar e state =
     Normal (fold (InputRow_measure_step ar) (drop e (Row.elements (fst state))) state)"
proof (induction ar e state rule: InputRow_measure_for.induct)
  case (1 ar e state)
  show ?case
  proof (cases "e < length (Row.elements (fst state))")
    case True
    let ?elem = "Row.elements (fst state) ! e"
    have at: "elementAt (Row.elements (fst state)) (int e) = Some ?elem"
      using True by (rule elementAt_nth)
    have rest: "InputRow_measure_for ar (e + 1) (InputRow_measure_step ar ?elem state) =
       Normal (fold (InputRow_measure_step ar) (drop (e + 1) (Row.elements (fst state)))
                 (InputRow_measure_step ar ?elem state))"
      using "1.IH" [OF True at] by (simp add: InputRow_measure_step_elements)
    have "drop e (Row.elements (fst state)) =
       ?elem # drop (e + 1) (Row.elements (fst state))"
      using True by (simp add: Cons_nth_drop_Suc)
    then have "fold (InputRow_measure_step ar) (drop e (Row.elements (fst state))) state =
       fold (InputRow_measure_step ar) (drop (e + 1) (Row.elements (fst state)))
         (InputRow_measure_step ar ?elem state)"
      by simp
    with True at rest show ?thesis
      by (subst InputRow_measure_for.simps) simp
  next
    case False
    then show ?thesis
      by (subst InputRow_measure_for.simps) simp
  qed
qed

lemma TopRow_measure_call_fold:
  "TopRow_measure_call ar this =
     Normal ((fold (TopRow_measure_step ar) (Row.elements this)
                (this\<lparr>Row.width := minWidth this, Row.height := minHeight this\<rparr>))
             \<lparr>Row.widthWithConnectedBlocks :=
                Row.width (fold (TopRow_measure_step ar) (Row.elements this)
                  (this\<lparr>Row.width := minWidth this, Row.height := minHeight this\<rparr>))\<rparr>)"
  by (simp add: TopRow_measure_call_def TopRow_measure_for_fold Let_def)

lemma BottomRow_measure_call_fold:
  "BottomRow_measure_call ar this =
     Normal ((fold (BottomRow_measure_step ar) (Row.elements this)
                (this\<lparr>Row.width := minWidth this, Row.height := minHeight this\<rparr>))
             \<lparr>Row.widthWithConnectedBlocks :=
                Row.width (fold (BottomRow_measure_step ar) (Row.elements this)
                  (this\<lparr>Row.width := minWidth this, Row.height := minHeight this\<rparr>))\<rparr>)"
  by (simp add: BottomRow_measure_call_def BottomRow_measure_for_fold Let_def)

lemma InputRow_measure_call_fold:
  "InputRow_measure_call ar this =
     Normal ((fst (fold (InputRow_measure_step ar) (Row.elements this)
                (this\<lparr>Row.width := minWidth this, Row.height := minHeight this\<rparr>, 0)))
             \<lparr>Row.widthWithConnectedBlocks :=
                add ar
                  (Row.width (fst (fold (InputRow_measure_step ar) (Row.elements this)
                     (this\<lparr>Row.width := minWidth this, Row.height := minHeight this\<rparr>, 0))))
                  (snd (fold (InputRow_measure_step ar) (Row.elements this)
                     (this\<lparr>Row.width := minWidth this, Row.height := minHeight this\<rparr>, 0)))\<rparr>)"
  by (simp add: InputRow_measure_call_def InputRow_measure_for_fold Let_def)

subsection \<open>Agreement with the functions of the row in exact arithmetic\<close>

lemma TopRow_measure_step_exact:
  "TopRow_measure_step exact elem this = TopRow_measure_body elem this"
  by (simp add: TopRow_measure_step_def TopRow_measure_body_def exact_def Let_def)

lemma BottomRow_measure_step_exact:
  "BottomRow_measure_step exact elem this = BottomRow_measure_body elem this"
  by (simp add: BottomRow_measure_step_def BottomRow_measure_body_def exact_def Let_def)

lemma InputRow_measure_step_exact:
  "InputRow_measure_step exact elem state = InputRow_measure_body elem state"
  by (simp add: InputRow_measure_step_def InputRow_measure_body_def exact_def Let_def)

lemma TopRow_measure_loop_fold:
  "fold (TopRow_measure_step exact) es this = TopRow_measure_loop es this"
  by (induction es arbitrary: this) (simp_all add: TopRow_measure_step_exact)

lemma BottomRow_measure_loop_fold:
  "fold (BottomRow_measure_step exact) es this = BottomRow_measure_loop es this"
  by (induction es arbitrary: this) (simp_all add: BottomRow_measure_step_exact)

lemma InputRow_measure_loop_fold:
  "fold (InputRow_measure_step exact) es state = InputRow_measure_loop es state"
  by (induction es arbitrary: state) (simp_all add: InputRow_measure_step_exact)

lemma TopRow_measure_call_exact:
  "TopRow_measure_call exact this = Normal (TopRow_measure this)"
  by (simp add: TopRow_measure_call_fold TopRow_measure_loop_fold TopRow_measure_def Let_def)

lemma BottomRow_measure_call_exact:
  "BottomRow_measure_call exact this = Normal (BottomRow_measure this)"
  by (simp add: BottomRow_measure_call_fold BottomRow_measure_loop_fold
      BottomRow_measure_def Let_def)

lemma InputRow_measure_call_exact:
  "InputRow_measure_call exact this = Normal (InputRow_measure this)"
  by (simp add: InputRow_measure_call_fold InputRow_measure_loop_fold
      InputRow_measure_def Let_def)
     (simp add: exact_def)

lemma measure_call_exact: "measure_call exact row = measure_row row"
  by (cases row)
     (simp_all add: TopRow_measure_call_exact BottomRow_measure_call_exact
        InputRow_measure_call_exact SpacerRow_measure_call_def SpacerRow_measure_def)

section \<open>Width and height\<close>

subsection \<open>The fields after the loops, in the arithmetic of the code\<close>

lemma TopRow_measure_step_fold_width:
  "Row.width (fold (TopRow_measure_step ar) es r) =
     foldl (add ar) (Row.width r) (map Measurable.width es)"
  by (induction es arbitrary: r) (simp_all add: TopRow_measure_step_def Let_def)

lemma TopRow_measure_step_fold_height:
  "Row.height (fold (TopRow_measure_step ar) es r) =
     fold (\<lambda>e h. if isSpacer e then h
                  else max (if Measurable.type e = ''hat''
                            then add ar h (Measurable.height e) else h)
                           (Measurable.height e))
          es (Row.height r)"
  by (induction es arbitrary: r) (simp_all add: TopRow_measure_step_def Let_def)

lemma BottomRow_measure_step_fold_width:
  "Row.width (fold (BottomRow_measure_step ar) es r) =
     foldl (add ar) (Row.width r) (map Measurable.width es)"
  by (induction es arbitrary: r) (simp_all add: BottomRow_measure_step_def Let_def)

lemma BottomRow_measure_step_fold_height:
  "Row.height (fold (BottomRow_measure_step ar) es r) =
     fold (\<lambda>e h. if isSpacer e then h
                  else max (if Measurable.type e = ''next connection''
                            then add ar h (Measurable.height e) else h)
                           (Measurable.height e))
          es (Row.height r)"
  by (induction es arbitrary: r) (simp_all add: BottomRow_measure_step_def Let_def)

lemma InputRow_measure_step_fold_width:
  "Row.width (fst (fold (InputRow_measure_step ar) es st)) =
     foldl (add ar) (Row.width (fst st)) (map Measurable.width es)"
  by (induction es arbitrary: st) (simp_all add: InputRow_measure_step_def Let_def)

lemma InputRow_measure_step_fold_height:
  "Row.height (fst (fold (InputRow_measure_step ar) es st)) =
     fold max (map Measurable.height (filter (\<lambda>e. \<not> isSpacer e) es)) (Row.height (fst st))"
  by (induction es arbitrary: st)
     (simp_all add: InputRow_measure_step_def Let_def max.commute)

lemma fold_height_without_adding_in:
  "filter (\<lambda>e. \<not> isSpacer e \<and> Measurable.type e = t) es = [] \<Longrightarrow>
   fold (\<lambda>e h. if isSpacer e then h
                else max (if Measurable.type e = t then g h e else h)
                         (Measurable.height e))
        es (h0::real)
   = fold max (map Measurable.height (filter (\<lambda>e. \<not> isSpacer e) es)) h0"
  by (induction es arbitrary: h0) (auto split: if_splits simp: max.commute)

lemma foldl_add_exact: "foldl (add exact) m ws = m + sum_list ws"
  by (induction ws arbitrary: m) (simp_all add: exact_def)

text \<open>
  Claim C1, as the code has it. On a top row, a bottom row and an input row,
  \<^verbatim>\<open>measure\<close> sets the width to \<^verbatim>\<open>minWidth\<close> with the widths of all elements added
  to it one after the other, in the order of the array, by the addition of the code
  (which rounds; where no addition rounds, this is \<^verbatim>\<open>minWidth\<close> plus the sum). On an
  input row it sets the height to the maximum of \<^verbatim>\<open>minHeight\<close> and the heights of the
  elements that are not spacers; on a top row it does so when no non-spacer element has
  the type \<^verbatim>\<open>'hat'\<close>, and on a bottom row when no non-spacer element has the type
  \<^verbatim>\<open>'next connection'\<close>. In general the height of a top (bottom) row runs through
  the elements: a spacer leaves it alone, a non-spacer hat (next connection) first adds
  its height to it, and every non-spacer then raises it to its own height at least. On a
  spacer row \<^verbatim>\<open>measure\<close> changes nothing. All of this holds whatever the addition and
  the subtraction of the arithmetic are.
\<close>

theorem measure_width_height:
  "Row.width (final (TopRow_measure_call ar t)) =
     foldl (add ar) (minWidth t) (map Measurable.width (Row.elements t))
   \<and> Row.width (final (BottomRow_measure_call ar b)) =
     foldl (add ar) (minWidth b) (map Measurable.width (Row.elements b))
   \<and> Row.width (final (InputRow_measure_call ar i)) =
     foldl (add ar) (minWidth i) (map Measurable.width (Row.elements i))
   \<and> Row.height (final (InputRow_measure_call ar i)) =
     Max (set (minHeight i #
               map Measurable.height (filter (\<lambda>e. \<not> isSpacer e) (Row.elements i))))
   \<and> (filter (\<lambda>e. \<not> isSpacer e \<and> Measurable.type e = ''hat'') (Row.elements t) = [] \<longrightarrow>
      Row.height (final (TopRow_measure_call ar t)) =
        Max (set (minHeight t #
                  map Measurable.height (filter (\<lambda>e. \<not> isSpacer e) (Row.elements t)))))
   \<and> (filter (\<lambda>e. \<not> isSpacer e \<and> Measurable.type e = ''next connection'')
         (Row.elements b) = [] \<longrightarrow>
      Row.height (final (BottomRow_measure_call ar b)) =
        Max (set (minHeight b #
                  map Measurable.height (filter (\<lambda>e. \<not> isSpacer e) (Row.elements b)))))
   \<and> Row.height (final (TopRow_measure_call ar t)) =
       fold (\<lambda>e h. if isSpacer e then h
                    else max (if Measurable.type e = ''hat''
                              then add ar h (Measurable.height e) else h)
                             (Measurable.height e))
            (Row.elements t) (minHeight t)
   \<and> Row.height (final (BottomRow_measure_call ar b)) =
       fold (\<lambda>e h. if isSpacer e then h
                    else max (if Measurable.type e = ''next connection''
                              then add ar h (Measurable.height e) else h)
                             (Measurable.height e))
            (Row.elements b) (minHeight b)
   \<and> SpacerRow_measure_call s = Normal s"
proof -
  have top_width: "Row.width (final (TopRow_measure_call ar t)) =
     foldl (add ar) (minWidth t) (map Measurable.width (Row.elements t))"
    by (simp add: TopRow_measure_call_fold TopRow_measure_step_fold_width)
  have bottom_width: "Row.width (final (BottomRow_measure_call ar b)) =
     foldl (add ar) (minWidth b) (map Measurable.width (Row.elements b))"
    by (simp add: BottomRow_measure_call_fold BottomRow_measure_step_fold_width)
  have input_width: "Row.width (final (InputRow_measure_call ar i)) =
     foldl (add ar) (minWidth i) (map Measurable.width (Row.elements i))"
    by (simp add: InputRow_measure_call_fold InputRow_measure_step_fold_width)
  have "Row.height (final (InputRow_measure_call ar i)) =
     fold max (map Measurable.height (filter (\<lambda>e. \<not> isSpacer e) (Row.elements i)))
       (minHeight i)"
    by (simp add: InputRow_measure_call_fold InputRow_measure_step_fold_height)
  then have input_height: "Row.height (final (InputRow_measure_call ar i)) =
     Max (set (minHeight i #
               map Measurable.height (filter (\<lambda>e. \<not> isSpacer e) (Row.elements i))))"
    by (simp only: Max.set_eq_fold)
  have top_height: "Row.height (final (TopRow_measure_call ar t)) =
       fold (\<lambda>e h. if isSpacer e then h
                    else max (if Measurable.type e = ''hat''
                              then add ar h (Measurable.height e) else h)
                             (Measurable.height e))
            (Row.elements t) (minHeight t)"
    by (simp add: TopRow_measure_call_fold TopRow_measure_step_fold_height)
  have bottom_height: "Row.height (final (BottomRow_measure_call ar b)) =
       fold (\<lambda>e h. if isSpacer e then h
                    else max (if Measurable.type e = ''next connection''
                              then add ar h (Measurable.height e) else h)
                             (Measurable.height e))
            (Row.elements b) (minHeight b)"
    by (simp add: BottomRow_measure_call_fold BottomRow_measure_step_fold_height)
  have top_max: "filter (\<lambda>e. \<not> isSpacer e \<and> Measurable.type e = ''hat'') (Row.elements t) = [] \<longrightarrow>
      Row.height (final (TopRow_measure_call ar t)) =
        Max (set (minHeight t #
                  map Measurable.height (filter (\<lambda>e. \<not> isSpacer e) (Row.elements t))))"
    by (simp only: top_height Max.set_eq_fold)
       (simp add: fold_height_without_adding_in)
  have bottom_max: "filter (\<lambda>e. \<not> isSpacer e \<and> Measurable.type e = ''next connection'')
         (Row.elements b) = [] \<longrightarrow>
      Row.height (final (BottomRow_measure_call ar b)) =
        Max (set (minHeight b #
                  map Measurable.height (filter (\<lambda>e. \<not> isSpacer e) (Row.elements b))))"
    by (simp only: bottom_height Max.set_eq_fold)
       (simp add: fold_height_without_adding_in)
  have spacer: "SpacerRow_measure_call s = Normal s"
    by (simp add: SpacerRow_measure_call_def)
  from top_width bottom_width input_width input_height top_max bottom_max top_height
    bottom_height spacer
  show ?thesis by blast
qed

theorem measure_width_height_witness:
  "filter (\<lambda>e. \<not> isSpacer e \<and> Measurable.type e = ''hat'')
     (Row.elements (new_TopRow\<lparr>minHeight := 3, minWidth := 1,
                               Row.elements := [example_corner, example_spacer]\<rparr>)) = []
   \<and> Row.width (final (TopRow_measure_call exact
        (new_TopRow\<lparr>minHeight := 3, minWidth := 1,
                    Row.elements := [example_corner, example_spacer]\<rparr>))) = 12
   \<and> Row.height (final (TopRow_measure_call exact
        (new_TopRow\<lparr>minHeight := 3, minWidth := 1,
                    Row.elements := [example_corner, example_spacer]\<rparr>))) = 4
   \<and> filter (\<lambda>e. \<not> isSpacer e \<and> Measurable.type e = ''next connection'')
     (Row.elements (new_BottomRow\<lparr>minHeight := 6,
                               Row.elements := [example_corner, example_spacer]\<rparr>)) = []
   \<and> Row.width (final (BottomRow_measure_call exact
        (new_BottomRow\<lparr>minHeight := 6,
                       Row.elements := [example_corner, example_spacer]\<rparr>))) = 11
   \<and> Row.height (final (BottomRow_measure_call exact
        (new_BottomRow\<lparr>minHeight := 6,
                       Row.elements := [example_corner, example_spacer]\<rparr>))) = 6
   \<and> Row.width (final (InputRow_measure_call exact (new_InputRow\<lparr>Row.elements :=
         [example_corner, example_spacer, example_statement]\<rparr>))) = 21
   \<and> Row.height (final (InputRow_measure_call exact (new_InputRow\<lparr>Row.elements :=
         [example_corner, example_spacer, example_statement]\<rparr>))) = 12"
  using measure_width_height
    [where ar = exact
       and t = "new_TopRow\<lparr>minHeight := 3, minWidth := 1,
                           Row.elements := [example_corner, example_spacer]\<rparr>"
       and b = "new_BottomRow\<lparr>minHeight := 6,
                              Row.elements := [example_corner, example_spacer]\<rparr>"
       and i = "new_InputRow\<lparr>Row.elements :=
                  [example_corner, example_spacer, example_statement]\<rparr>"]
  by (simp add: new_TopRow_def new_BottomRow_def new_InputRow_def new_Row_def examples
      exact_def)

text \<open>
  The claim as it was stated fails on a top row with a hat: with \<^verbatim>\<open>minHeight\<close> 3, a
  corner of height 4 and a hat of height 5 the measured height is 9, not the maximum 5.
  It fails likewise on a bottom row with a next connection, and on a spacer row, whose
  width is not the sum of anything. The numbers are small integers, which the code adds
  without rounding.
\<close>

theorem measure_height_counterexample:
  "Row.height (final (TopRow_measure_call exact (new_TopRow\<lparr>minHeight := 3,
       Row.elements := [example_corner, example_hat]\<rparr>))) = 9
   \<and> Max (set (minHeight (new_TopRow\<lparr>minHeight := 3,
                   Row.elements := [example_corner, example_hat]\<rparr>) #
         map Measurable.height (filter (\<lambda>e. \<not> isSpacer e)
           (Row.elements (new_TopRow\<lparr>minHeight := 3,
                   Row.elements := [example_corner, example_hat]\<rparr>))))) = 5
   \<and> Row.height (final (BottomRow_measure_call exact (new_BottomRow\<lparr>minHeight := 3,
       Row.elements := [example_corner, example_next]\<rparr>))) = 8
   \<and> Max (set (minHeight (new_BottomRow\<lparr>minHeight := 3,
                   Row.elements := [example_corner, example_next]\<rparr>) #
         map Measurable.height (filter (\<lambda>e. \<not> isSpacer e)
           (Row.elements (new_BottomRow\<lparr>minHeight := 3,
                   Row.elements := [example_corner, example_next]\<rparr>))))) = 4"
  by (simp add: TopRow_measure_call_fold BottomRow_measure_call_fold TopRow_measure_step_def
      BottomRow_measure_step_def exact_def Let_def new_TopRow_def new_BottomRow_def examples)

section \<open>Signs of the measured sizes\<close>

text \<open>
  Claim C2, as the code has it. Take a top row, a bottom row or an input row whose
  \<^verbatim>\<open>minWidth\<close> and \<^verbatim>\<open>minHeight\<close> are non-negative and whose elements all have
  non-negative \<^verbatim>\<open>width\<close>, \<^verbatim>\<open>height\<close>, \<^verbatim>\<open>connectedBlockWidth\<close>,
  \<^verbatim>\<open>connectionWidth\<close> and \<^verbatim>\<open>startY\<close>. After \<^verbatim>\<open>measure\<close>, \<^verbatim>\<open>width\<close> and
  \<^verbatim>\<open>height\<close> are non-negative; on a top row and a bottom row so is
  \<^verbatim>\<open>widthWithConnectedBlocks\<close>; \<^verbatim>\<open>startY\<close> of a top row and \<^verbatim>\<open>overhangY\<close> of a
  bottom row are non-negative if they were so before the call. On an input row
  \<^verbatim>\<open>widthWithConnectedBlocks\<close> is non-negative if no external value input with a
  connected block has a \<^verbatim>\<open>connectionWidth\<close> larger than its
  \<^verbatim>\<open>connectedBlockWidth\<close>.
\<close>

theorem measure_nonnegative:
  "(0 \<le> minWidth t \<and> 0 \<le> minHeight t \<and> list_all nonnegative_element (Row.elements t) \<longrightarrow>
      0 \<le> Row.width (TopRow_measure t) \<and> 0 \<le> Row.height (TopRow_measure t)
      \<and> 0 \<le> Row.widthWithConnectedBlocks (TopRow_measure t)
      \<and> (0 \<le> TopRow.startY t \<longrightarrow> 0 \<le> TopRow.startY (TopRow_measure t)))
   \<and> (0 \<le> minWidth b \<and> 0 \<le> minHeight b \<and> list_all nonnegative_element (Row.elements b) \<longrightarrow>
      0 \<le> Row.width (BottomRow_measure b) \<and> 0 \<le> Row.height (BottomRow_measure b)
      \<and> 0 \<le> Row.widthWithConnectedBlocks (BottomRow_measure b)
      \<and> (0 \<le> overhangY b \<longrightarrow> 0 \<le> overhangY (BottomRow_measure b)))
   \<and> (0 \<le> minWidth i \<and> 0 \<le> minHeight i \<and> list_all nonnegative_element (Row.elements i) \<longrightarrow>
      0 \<le> Row.width (InputRow_measure i) \<and> 0 \<le> Row.height (InputRow_measure i)
      \<and> (list_all (\<lambda>e. isInput e \<and> Measurable.type e = ''external value input''
                         \<and> connectedBlockWidth e \<noteq> 0
                         \<longrightarrow> connectionWidth e \<le> connectedBlockWidth e) (Row.elements i)
          \<longrightarrow> 0 \<le> Row.widthWithConnectedBlocks (InputRow_measure i)))"
proof -
  have widths: "0 \<le> m + sum_list (map Measurable.width es)"
    if "0 \<le> m" and "list_all nonnegative_element es" for m :: real and es
  proof -
    have "list_all (\<lambda>e. 0 \<le> Measurable.width e) es"
      using that(2) by (simp add: list_all_iff)
    then have "0 \<le> sum_list (map Measurable.width es)"
      by (rule sum_list_map_nonnegative)
    with that(1) show ?thesis by simp
  qed
  have heights: "list_all (\<lambda>e. 0 \<le> Measurable.height e) es"
    if "list_all nonnegative_element es" for es
    using that by (simp add: list_all_iff)
  have startYs: "list_all (\<lambda>e. 0 \<le> Measurable.startY e) es"
    if "list_all nonnegative_element es" for es
    using that by (simp add: list_all_iff)
  have top: "0 \<le> Row.width (TopRow_measure t) \<and> 0 \<le> Row.height (TopRow_measure t)
      \<and> 0 \<le> Row.widthWithConnectedBlocks (TopRow_measure t)
      \<and> (0 \<le> TopRow.startY t \<longrightarrow> 0 \<le> TopRow.startY (TopRow_measure t))"
    if "0 \<le> minWidth t" "0 \<le> minHeight t" "list_all nonnegative_element (Row.elements t)"
    using that widths [of "minWidth t" "Row.elements t"]
      fold_height_nonnegative [OF that(2) heights [OF that(3)]]
      fold_choice_nonnegative [OF _ startYs [OF that(3)]]
    by (simp add: TopRow_measure_connected TopRow_measure_width TopRow_measure_height
        TopRow_measure_startY)
  have bottom: "0 \<le> Row.width (BottomRow_measure b) \<and> 0 \<le> Row.height (BottomRow_measure b)
      \<and> 0 \<le> Row.widthWithConnectedBlocks (BottomRow_measure b)
      \<and> (0 \<le> overhangY b \<longrightarrow> 0 \<le> overhangY (BottomRow_measure b))"
    if "0 \<le> minWidth b" "0 \<le> minHeight b" "list_all nonnegative_element (Row.elements b)"
    using that widths [of "minWidth b" "Row.elements b"]
      fold_height_nonnegative [OF that(2) heights [OF that(3)]]
      fold_choice_nonnegative [OF _ heights [OF that(3)]]
    by (simp add: BottomRow_measure_connected BottomRow_measure_width BottomRow_measure_height
        BottomRow_measure_overhangY)
  have input: "0 \<le> Row.width (InputRow_measure i) \<and> 0 \<le> Row.height (InputRow_measure i)
      \<and> (list_all (\<lambda>e. isInput e \<and> Measurable.type e = ''external value input''
                         \<and> connectedBlockWidth e \<noteq> 0
                         \<longrightarrow> connectionWidth e \<le> connectedBlockWidth e) (Row.elements i)
          \<longrightarrow> 0 \<le> Row.widthWithConnectedBlocks (InputRow_measure i))"
    if "0 \<le> minWidth i" "0 \<le> minHeight i" "list_all nonnegative_element (Row.elements i)"
  proof -
    have w: "0 \<le> Row.width (InputRow_measure i)"
      using that widths [of "minWidth i" "Row.elements i"]
      by (simp add: InputRow_measure_width)
    have h: "0 \<le> Row.height (InputRow_measure i)"
      using that(2) by (simp add: InputRow_measure_height fold_max_nonnegative)
    have c: "0 \<le> Row.widthWithConnectedBlocks (InputRow_measure i)"
      if ext: "list_all (\<lambda>e. isInput e \<and> Measurable.type e = ''external value input''
                         \<and> connectedBlockWidth e \<noteq> 0
                         \<longrightarrow> connectionWidth e \<le> connectedBlockWidth e) (Row.elements i)"
    proof -
      have "list_all (\<lambda>e. 0 \<le> (if isInput e \<and> Measurable.type e = ''statement input''
                         then connectedBlockWidth e
                         else if isInput e \<and> Measurable.type e = ''external value input''
                                 \<and> connectedBlockWidth e \<noteq> 0
                         then connectedBlockWidth e - connectionWidth e else 0))
              (Row.elements i)"
        using ext \<open>list_all nonnegative_element (Row.elements i)\<close>
        by (auto simp: list_all_iff)
      then have "0 \<le> sum_list (map (\<lambda>e. if isInput e \<and> Measurable.type e = ''statement input''
                         then connectedBlockWidth e
                         else if isInput e \<and> Measurable.type e = ''external value input''
                                 \<and> connectedBlockWidth e \<noteq> 0
                         then connectedBlockWidth e - connectionWidth e else 0)
                   (Row.elements i))"
        by (rule sum_list_map_nonnegative)
      with w show ?thesis
        by (simp add: InputRow_measure_connected)
    qed
    from w h c show ?thesis by blast
  qed
  from top bottom input show ?thesis by blast
qed

theorem measure_nonnegative_witness:
  "0 \<le> minWidth (new_TopRow\<lparr>minHeight := 3, Row.elements := [example_corner, example_hat]\<rparr>)
   \<and> 0 \<le> minHeight (new_TopRow\<lparr>minHeight := 3, Row.elements := [example_corner, example_hat]\<rparr>)
   \<and> 0 \<le> TopRow.startY (new_TopRow\<lparr>minHeight := 3, Row.elements := [example_corner, example_hat]\<rparr>)
   \<and> list_all nonnegative_element [example_corner, example_hat]
   \<and> 0 \<le> Row.width (TopRow_measure
         (new_TopRow\<lparr>minHeight := 3, Row.elements := [example_corner, example_hat]\<rparr>))
   \<and> 0 \<le> Row.height (TopRow_measure
         (new_TopRow\<lparr>minHeight := 3, Row.elements := [example_corner, example_hat]\<rparr>))
   \<and> 0 \<le> Row.widthWithConnectedBlocks (TopRow_measure
         (new_TopRow\<lparr>minHeight := 3, Row.elements := [example_corner, example_hat]\<rparr>))
   \<and> 0 \<le> TopRow.startY (TopRow_measure
         (new_TopRow\<lparr>minHeight := 3, Row.elements := [example_corner, example_hat]\<rparr>))
   \<and> 0 \<le> overhangY (new_BottomRow\<lparr>minHeight := 3, Row.elements := [example_corner, example_next]\<rparr>)
   \<and> list_all nonnegative_element [example_corner, example_next]
   \<and> 0 \<le> Row.width (BottomRow_measure
         (new_BottomRow\<lparr>minHeight := 3, Row.elements := [example_corner, example_next]\<rparr>))
   \<and> 0 \<le> Row.height (BottomRow_measure
         (new_BottomRow\<lparr>minHeight := 3, Row.elements := [example_corner, example_next]\<rparr>))
   \<and> 0 \<le> Row.widthWithConnectedBlocks (BottomRow_measure
         (new_BottomRow\<lparr>minHeight := 3, Row.elements := [example_corner, example_next]\<rparr>))
   \<and> 0 \<le> overhangY (BottomRow_measure
         (new_BottomRow\<lparr>minHeight := 3, Row.elements := [example_corner, example_next]\<rparr>))
   \<and> list_all nonnegative_element [example_corner, example_spacer, example_statement]
   \<and> 0 \<le> Row.width (InputRow_measure
         (new_InputRow\<lparr>Row.elements := [example_corner, example_spacer, example_statement]\<rparr>))
   \<and> 0 \<le> Row.height (InputRow_measure
         (new_InputRow\<lparr>Row.elements := [example_corner, example_spacer, example_statement]\<rparr>))
   \<and> 0 \<le> Row.widthWithConnectedBlocks (InputRow_measure
         (new_InputRow\<lparr>Row.elements := [example_corner, example_spacer, example_statement]\<rparr>))"
  using measure_nonnegative
    [where t = "new_TopRow\<lparr>minHeight := 3, Row.elements := [example_corner, example_hat]\<rparr>"
       and b = "new_BottomRow\<lparr>minHeight := 3, Row.elements := [example_corner, example_next]\<rparr>"
       and i = "new_InputRow\<lparr>Row.elements :=
                  [example_corner, example_spacer, example_statement]\<rparr>"]
  by (simp add: new_TopRow_def new_BottomRow_def new_InputRow_def new_Row_def examples)

text \<open>
  The claim as it was stated fails on an input row: an external value input of width 2
  with \<^verbatim>\<open>connectedBlockWidth\<close> 1 and \<^verbatim>\<open>connectionWidth\<close> 8, all non-negative, gives
  \<^verbatim>\<open>widthWithConnectedBlocks = 2 + (1 - 8) = -5\<close>. It also fails on a top row without
  a hat whose \<^verbatim>\<open>startY\<close> is negative before the call, which \<^verbatim>\<open>measure\<close> leaves as it
  is.
\<close>

theorem measure_nonnegative_counterexample:
  "0 \<le> minWidth (new_InputRow\<lparr>Row.elements := [example_external]\<rparr>)
   \<and> 0 \<le> minHeight (new_InputRow\<lparr>Row.elements := [example_external]\<rparr>)
   \<and> list_all nonnegative_element
        (Row.elements (new_InputRow\<lparr>Row.elements := [example_external]\<rparr>))
   \<and> Row.widthWithConnectedBlocks
        (InputRow_measure (new_InputRow\<lparr>Row.elements := [example_external]\<rparr>)) = - 5
   \<and> 0 \<le> minWidth (new_TopRow\<lparr>TopRow.startY := - 1\<rparr>)
   \<and> 0 \<le> minHeight (new_TopRow\<lparr>TopRow.startY := - 1\<rparr>)
   \<and> list_all nonnegative_element (Row.elements (new_TopRow\<lparr>TopRow.startY := - 1\<rparr>))
   \<and> TopRow.startY (TopRow_measure (new_TopRow\<lparr>TopRow.startY := - 1\<rparr>)) = - 1"
  by (simp add: measure_defs examples)

section \<open>The width with connected blocks\<close>


section \<open>The first and the last spacer\<close>

lemma elementAt_first: "elementAt (x # xs) 0 = Some x"
  by (simp add: elementAt_def)

lemma elementAt_last: "xs \<noteq> [] \<Longrightarrow> elementAt xs (int (length xs) - 1) = Some (last xs)"
proof -
  assume ne: "xs \<noteq> []"
  then have "0 < length xs" by simp
  then have "nat (int (length xs) - 1) = length xs - 1" by simp
  with ne show ?thesis
    by (simp add: elementAt_def last_conv_nth)
qed

lemma elementAt_empty: "elementAt [] i = None"
  by (simp add: elementAt_def)

text \<open>
  Claim C9. On every row, \<^verbatim>\<open>getFirstSpacer\<close> returns the first element of the array
  of elements and \<^verbatim>\<open>getLastSpacer\<close> the last one, whether or not that element is a
  spacer; on a row without elements both return \<^verbatim>\<open>null\<close>.
\<close>

theorem getFirstSpacer_getLastSpacer:
  "getFirstSpacer this = (case elements_of this of [] \<Rightarrow> None | e # rest \<Rightarrow> Some e)
   \<and> getLastSpacer this =
       (if elements_of this = [] then None else Some (last (elements_of this)))"
proof (cases "elements_of this")
  case Nil
  then show ?thesis
    by (simp add: getFirstSpacer_def getLastSpacer_def elementAt_empty)
next
  case (Cons e rest)
  have first: "getFirstSpacer this = Some e"
    by (simp add: getFirstSpacer_def Cons elementAt_first isSpacer_property_def)
  have "elementAt (e # rest) (int (length (e # rest)) - 1) = Some (last (e # rest))"
    by (rule elementAt_last) simp
  then have "getLastSpacer this = Some (last (e # rest))"
    unfolding getLastSpacer_def Cons
    by (subst getLastSpacer_loop.simps) (simp add: isSpacer_property_def)
  with first show ?thesis by (simp add: Cons)
qed

section \<open>Spacer rows\<close>

lemma SpacerRow_measure_funpow: "(SpacerRow_measure ^^ n) s = s"
  by (induction n) (simp_all add: SpacerRow_measure_def)

text \<open>
  Claim C10. A spacer row constructed with a height and a width has one element, the
  in-row spacer constructed with that width, and \<^verbatim>\<open>measure\<close> does nothing to it: after
  any number of calls the width and the height are the ones given to the constructor,
  and the row is the row that was constructed.
\<close>

theorem SpacerRow_measure_nop:
  "SpacerRow.elements (new_SpacerRow env h w) = [InRowSpacer env w]
   \<and> length (SpacerRow.elements (new_SpacerRow env h w)) = 1
   \<and> SpacerRow.width ((SpacerRow_measure ^^ n) (new_SpacerRow env h w)) = w
   \<and> SpacerRow.height ((SpacerRow_measure ^^ n) (new_SpacerRow env h w)) = h
   \<and> (SpacerRow_measure ^^ n) (new_SpacerRow env h w) = new_SpacerRow env h w
   \<and> measure_row (Spacer (new_SpacerRow env h w)) = Normal (Spacer (new_SpacerRow env h w))"
  by (simp add: SpacerRow_measure_funpow) (simp add: new_SpacerRow_def SpacerRow_measure_def)

section \<open>Populating the top row and the bottom row\<close>

subsection \<open>The guarded reads do not throw\<close>

lemma TopRow_squareCorner_value:
  "TopRow_squareCorner env h b =
     Inr (outputConnection (h b) \<noteq> None \<or> hasHat env (h b)
          \<or> (case getPreviousBlock (h b) of
                None \<Rightarrow> False
              | Some p \<Rightarrow> getNextBlock (h p) = Some b))"
  by (cases "getPreviousBlock (h b)")
     (simp_all add: TopRow_squareCorner_def call_getNextBlock_def Let_def)

lemma inputIsStatement_first:
  "inputIsStatement env block 0 =
     Inr (case inputList block of
            [] \<Rightarrow> False
          | first # rest \<Rightarrow> Input.type first = NEXT_STATEMENT env)"
  by (cases "inputList block")
     (simp_all add: inputIsStatement_def elementAt_first read_type_def)

lemma inputIsStatement_last:
  "inputIsStatement env block (int (length (inputList block)) - 1) =
     Inr (inputList block \<noteq> []
          \<and> Input.type (last (inputList block)) = NEXT_STATEMENT env)"
proof (cases "inputList block = []")
  case True
  then show ?thesis by (simp add: inputIsStatement_def)
next
  case False
  then show ?thesis
    by (simp add: inputIsStatement_def elementAt_last read_type_def)
qed

subsection \<open>The elements pushed\<close>

lemma TopRow_populate_returns: "returns (TopRow_populate env h b this)"
  by (simp add: TopRow_populate_def TopRow_squareCorner_value inputIsStatement_first Let_def)

lemma TopRow_populate_elements:
  "Row.elements (final (TopRow_populate env h b this)) =
     Row.elements this
     @ [if outputConnection (h b) \<noteq> None \<or> hasHat env (h b)
           \<or> (case getPreviousBlock (h b) of
                 None \<Rightarrow> False
               | Some p \<Rightarrow> getNextBlock (h p) = Some b)
        then SquareCorner env else RoundCorner env]
     @ (if hasHat env (h b) then [Hat env]
        else case previousConnection (h b) of
               None \<Rightarrow> []
             | Some c \<Rightarrow> [PreviousConnection env c])"
  by (cases "previousConnection (h b)")
     (simp_all add: TopRow_populate_def TopRow_squareCorner_value inputIsStatement_first Let_def)

lemma TopRow_populate_startY:
  "TopRow.startY (final (TopRow_populate env h b this)) =
     (if hasHat env (h b) then Measurable.startY (Hat env) else TopRow.startY this)"
  by (cases "previousConnection (h b)")
     (simp_all add: TopRow_populate_def TopRow_squareCorner_value inputIsStatement_first Let_def)

lemma BottomRow_populate_returns: "returns (BottomRow_populate env h b this)"
  by (cases "nextConnection (h b)")
     (simp_all add: BottomRow_populate_def inputIsStatement_last Let_def)

lemma BottomRow_populate_elements:
  "Row.elements (final (BottomRow_populate env h b this)) =
     Row.elements this
     @ [if outputConnection (h b) \<noteq> None \<or> getNextBlock (h b) \<noteq> None
        then SquareCorner env else RoundCorner env]
     @ (case nextConnection (h b) of
          None \<Rightarrow> []
        | Some c \<Rightarrow> [NextConnection env c])"
  by (cases "nextConnection (h b)")
     (simp_all add: BottomRow_populate_def inputIsStatement_last Let_def)

subsection \<open>Corners, hats and connections\<close>

text \<open>
  Claim C4. \<^verbatim>\<open>TopRow.populate\<close> returns, having pushed one corner and then at most one
  more element. The corner is a \<^verbatim>\<open>SquareCorner\<close> if the block has an output
  connection, or has a hat, or has a previous block whose next block is the block itself,
  and a \<^verbatim>\<open>RoundCorner\<close> otherwise; on a row fresh from the constructor it is the first
  element. After the corner comes a \<^verbatim>\<open>Hat\<close> if the block has a hat, else a
  \<^verbatim>\<open>PreviousConnection\<close> made from the previous connection if the block has one, else
  nothing. \<^verbatim>\<open>BottomRow.populate\<close> returns, having pushed one corner, a
  \<^verbatim>\<open>SquareCorner\<close> if the block has an output connection or a next block and a
  \<^verbatim>\<open>RoundCorner\<close> otherwise, and after it a \<^verbatim>\<open>NextConnection\<close> exactly when the
  block has a next connection.
\<close>

theorem populate_elements:
  "returns (TopRow_populate env h b t)
   \<and> Row.elements (final (TopRow_populate env h b t)) =
       Row.elements t
       @ [if outputConnection (h b) \<noteq> None \<or> hasHat env (h b)
             \<or> (case getPreviousBlock (h b) of
                   None \<Rightarrow> False
                 | Some p \<Rightarrow> getNextBlock (h p) = Some b)
          then SquareCorner env else RoundCorner env]
       @ (if hasHat env (h b) then [Hat env]
          else case previousConnection (h b) of
                 None \<Rightarrow> []
               | Some c \<Rightarrow> [PreviousConnection env c])
   \<and> hd (Row.elements (final (TopRow_populate env h b new_TopRow))) =
       (if outputConnection (h b) \<noteq> None \<or> hasHat env (h b)
           \<or> (case getPreviousBlock (h b) of
                 None \<Rightarrow> False
               | Some p \<Rightarrow> getNextBlock (h p) = Some b)
        then SquareCorner env else RoundCorner env)
   \<and> returns (BottomRow_populate env h b r)
   \<and> Row.elements (final (BottomRow_populate env h b r)) =
       Row.elements r
       @ [if outputConnection (h b) \<noteq> None \<or> getNextBlock (h b) \<noteq> None
          then SquareCorner env else RoundCorner env]
       @ (case nextConnection (h b) of
            None \<Rightarrow> []
          | Some c \<Rightarrow> [NextConnection env c])"
proof -
  have "Row.elements new_TopRow = []"
    by (simp add: new_TopRow_def)
  then have "hd (Row.elements (final (TopRow_populate env h b new_TopRow))) =
       (if outputConnection (h b) \<noteq> None \<or> hasHat env (h b)
           \<or> (case getPreviousBlock (h b) of
                 None \<Rightarrow> False
               | Some p \<Rightarrow> getNextBlock (h p) = Some b)
        then SquareCorner env else RoundCorner env)"
    by (simp only: TopRow_populate_elements) simp
  then show ?thesis
    using TopRow_populate_returns [of env h b t] TopRow_populate_elements [of env h b t]
      BottomRow_populate_returns [of env h b r] BottomRow_populate_elements [of env h b r]
    by simp
qed

theorem populate_elements_witness:
  "Row.elements (final (TopRow_populate example_renderer example_heap 0 new_TopRow)) =
     [example_square, example_hat]
   \<and> Row.elements (final (TopRow_populate example_renderer example_heap 1 new_TopRow)) =
     [example_square, example_previous]
   \<and> Row.elements (final (BottomRow_populate example_renderer example_heap 0 new_BottomRow)) =
     [example_square, example_next]
   \<and> Row.elements (final (BottomRow_populate example_renderer example_heap 1 new_BottomRow)) =
     [example_corner]"
  using populate_elements [of example_renderer example_heap 0 new_TopRow new_BottomRow]
    populate_elements [of example_renderer example_heap 1 new_TopRow new_BottomRow]
  by (simp add: example_renderer_def example_heap_def example_block_hat_def
      example_block_stacked_def hasHat_def new_TopRow_def new_BottomRow_def)

section \<open>The start of a top row with a hat\<close>

lemma fold_choice_last:
  "fold (\<lambda>e s. if p e then f e else s) es s0 =
     (if filter p es = [] then s0 else f (last (filter p es)))"
  by (induction es rule: rev_induct) simp_all

lemma filter_hat_nonspacer:
  "list_all (\<lambda>e. Measurable.type e = ''hat'' \<longrightarrow> \<not> isSpacer e) es \<Longrightarrow>
   filter (\<lambda>e. \<not> isSpacer e \<and> Measurable.type e = ''hat'') es =
   filter (\<lambda>e. Measurable.type e = ''hat'') es"
  by (induction es) auto

text \<open>
  Claim C3. For every block with a hat, \<^verbatim>\<open>TopRow.populate\<close> sets \<^verbatim>\<open>startY\<close> of the
  row to \<^verbatim>\<open>startY\<close> of the hat it creates, and \<^verbatim>\<open>TopRow.measure\<close> sets it to
  \<^verbatim>\<open>startY\<close> of every hat it meets, so that the top row of the block, constructed,
  populated and measured, has the \<^verbatim>\<open>startY\<close> of the hat. A hat is an element of type
  \<^verbatim>\<open>'hat'\<close>, by which \<^verbatim>\<open>measure\<close> tells it, and it is not a spacer: \<^verbatim>\<open>populate\<close>
  creates it among the non-spacer elements of the row. The constructor of the hat and
  the method \<^verbatim>\<open>isSpacer\<close> are defined in other files, so that the two facts are
  hypotheses here. On a row whose elements of type \<^verbatim>\<open>'hat'\<close> are not spacers, the loop
  of \<^verbatim>\<open>measure\<close> sets \<^verbatim>\<open>startY\<close> at each of them to the \<^verbatim>\<open>startY\<close> of the element,
  and after \<^verbatim>\<open>measure\<close> the row has the \<^verbatim>\<open>startY\<close> of the last of them.
\<close>

theorem TopRow_startY_hat:
  "(hasHat env (h b) \<longrightarrow>
      TopRow.startY (final (TopRow_populate env h b t)) = Measurable.startY (Hat env))
   \<and> (hasHat env (h b) \<and> Measurable.type (Hat env) = ''hat'' \<and> \<not> isSpacer (Hat env) \<longrightarrow>
      TopRow.startY (TopRow_measure (final (TopRow_populate env h b new_TopRow))) =
        Measurable.startY (Hat env)
      \<and> TopRow.startY (final (TopRow_measure_call ar
           (final (TopRow_populate env h b new_TopRow)))) = Measurable.startY (Hat env))
   \<and> (Measurable.type e = ''hat'' \<and> \<not> isSpacer e \<longrightarrow>
      TopRow.startY (TopRow_measure_body e r) = Measurable.startY e
      \<and> TopRow.startY (TopRow_measure_step ar e r) = Measurable.startY e)
   \<and> (list_all (\<lambda>e. Measurable.type e = ''hat'' \<longrightarrow> \<not> isSpacer e) (Row.elements r)
       \<and> filter (\<lambda>e. Measurable.type e = ''hat'') (Row.elements r) \<noteq> [] \<longrightarrow>
      TopRow.startY (TopRow_measure r) =
        Measurable.startY (last (filter (\<lambda>e. Measurable.type e = ''hat'') (Row.elements r))))"
proof -
  have populate: "hasHat env (h b) \<longrightarrow>
      TopRow.startY (final (TopRow_populate env h b t)) = Measurable.startY (Hat env)"
    by (simp add: TopRow_populate_startY)
  have body: "Measurable.type e = ''hat'' \<and> \<not> isSpacer e \<longrightarrow>
      TopRow.startY (TopRow_measure_body e r) = Measurable.startY e
      \<and> TopRow.startY (TopRow_measure_step ar e r) = Measurable.startY e"
    by (simp add: TopRow_measure_body_def TopRow_measure_step_def Let_def)
  have measure: "TopRow.startY (TopRow_measure r) =
        Measurable.startY (last (filter (\<lambda>e. Measurable.type e = ''hat'') (Row.elements r)))"
    if wf: "list_all (\<lambda>e. Measurable.type e = ''hat'' \<longrightarrow> \<not> isSpacer e) (Row.elements r)"
      and ne: "filter (\<lambda>e. Measurable.type e = ''hat'') (Row.elements r) \<noteq> []"
    using ne
    by (simp add: TopRow_measure_startY fold_choice_last filter_hat_nonspacer [OF wf])
  have both: "TopRow.startY (TopRow_measure (final (TopRow_populate env h b new_TopRow))) =
        Measurable.startY (Hat env)
      \<and> TopRow.startY (final (TopRow_measure_call ar
           (final (TopRow_populate env h b new_TopRow)))) = Measurable.startY (Hat env)"
    if "hasHat env (h b)" "Measurable.type (Hat env) = ''hat''" "\<not> isSpacer (Hat env)"
  proof -
    have empty: "Row.elements new_TopRow = []"
      by (simp add: new_TopRow_def)
    have exact_arithmetic:
      "TopRow.startY (TopRow_measure (final (TopRow_populate env h b new_TopRow))) =
         Measurable.startY (Hat env)"
      using that empty by (simp add: TopRow_measure_startY TopRow_populate_elements)
    have "TopRow.startY (fold (TopRow_measure_step ar) [c, Hat env] row) =
         Measurable.startY (Hat env)" for c row
      using that by (simp add: TopRow_measure_step_def Let_def)
    then have "TopRow.startY (final (TopRow_measure_call ar
           (final (TopRow_populate env h b new_TopRow)))) = Measurable.startY (Hat env)"
      using that empty by (simp add: TopRow_measure_call_fold TopRow_populate_elements)
    with exact_arithmetic show ?thesis by simp
  qed
  from populate body measure both show ?thesis by blast
qed

theorem TopRow_startY_hat_witness:
  "hasHat example_renderer (example_heap 0)
   \<and> Measurable.type (Hat example_renderer) = ''hat''
   \<and> \<not> isSpacer (Hat example_renderer)
   \<and> TopRow.startY (final (TopRow_populate example_renderer example_heap 0 new_TopRow)) = 5
   \<and> TopRow.startY (TopRow_measure_body example_hat new_TopRow) = 5
   \<and> list_all (\<lambda>e. Measurable.type e = ''hat'' \<longrightarrow> \<not> isSpacer e)
        [example_corner, example_spacer, example_hat]
   \<and> filter (\<lambda>e. Measurable.type e = ''hat'')
        [example_corner, example_spacer, example_hat] = [example_hat]
   \<and> TopRow.startY (TopRow_measure
        (new_TopRow\<lparr>Row.elements := [example_corner, example_spacer, example_hat]\<rparr>)) = 5
   \<and> TopRow.startY
        (TopRow_measure (final (TopRow_populate example_renderer example_heap 0 new_TopRow))) = 5
   \<and> TopRow.startY (final (TopRow_measure_call exact
        (final (TopRow_populate example_renderer example_heap 0 new_TopRow)))) = 5"
  using TopRow_startY_hat
    [where env = example_renderer and h = example_heap and b = 0 and t = new_TopRow
       and e = example_hat and ar = exact
       and r = "new_TopRow\<lparr>Row.elements := [example_corner, example_spacer, example_hat]\<rparr>"]
    TopRow_startY_hat
    [where env = example_renderer and h = example_heap and b = 0 and t = new_TopRow
       and e = example_hat and ar = exact and r = new_TopRow]
  by (simp add: example_renderer_def example_heap_def example_block_hat_def hasHat_def
      example_hat_def example_corner_def example_spacer_def new_TopRow_def)

section \<open>No failure in the concrete rows\<close>

text \<open>
  Claim C6. On every renderer, heap, block and row, \<^verbatim>\<open>TopRow.populate\<close> and
  \<^verbatim>\<open>BottomRow.populate\<close> return: the reads that would throw on \<^verbatim>\<open>null\<close> or
  \<^verbatim>\<open>undefined\<close> are guarded on every branch. On every top row, bottom row, spacer
  row and input row, with any list of elements and any arithmetic, \<^verbatim>\<open>measure\<close>
  returns: the loop terminates, and from whatever index it starts it reads
  \<^verbatim>\<open>this.elements[e]\<close> only inside the array, so that the read of a property of an
  absent element is never reached.
\<close>

theorem populate_measure_return:
  "returns (TopRow_populate env h b t)
   \<and> returns (BottomRow_populate env h b r)
   \<and> returns (TopRow_measure_for ar e t)
   \<and> returns (BottomRow_measure_for ar e r)
   \<and> returns (InputRow_measure_for ar e (i, c))
   \<and> returns (TopRow_measure_call ar t)
   \<and> returns (BottomRow_measure_call ar r)
   \<and> returns (SpacerRow_measure_call s)
   \<and> returns (InputRow_measure_call ar i)
   \<and> returns (measure_call ar (Top t))
   \<and> returns (measure_call ar (Bottom r))
   \<and> returns (measure_call ar (Spacer s))
   \<and> returns (measure_call ar (InputR i))"
proof -
  have loops: "returns (TopRow_measure_for ar e t) \<and> returns (BottomRow_measure_for ar e r)
     \<and> returns (InputRow_measure_for ar e (i, c))"
    by (simp add: TopRow_measure_for_fold BottomRow_measure_for_fold InputRow_measure_for_fold)
  have calls: "returns (TopRow_measure_call ar t) \<and> returns (BottomRow_measure_call ar r)
     \<and> returns (SpacerRow_measure_call s) \<and> returns (InputRow_measure_call ar i)"
    by (simp add: TopRow_measure_call_fold BottomRow_measure_call_fold
        InputRow_measure_call_fold SpacerRow_measure_call_def)
  have dispatched: "returns (measure_call ar (Top t)) \<and> returns (measure_call ar (Bottom r))
     \<and> returns (measure_call ar (Spacer s)) \<and> returns (measure_call ar (InputR i))"
    by (simp add: TopRow_measure_call_fold BottomRow_measure_call_fold
        InputRow_measure_call_fold SpacerRow_measure_call_def)
  from loops calls dispatched show ?thesis
    using TopRow_populate_returns [of env h b t] BottomRow_populate_returns [of env h b r]
    by simp
qed

theorem populate_measure_return_witness:
  "returns (TopRow_populate example_renderer example_heap 0 new_TopRow)
   \<and> returns (BottomRow_populate example_renderer example_heap 0 new_BottomRow)
   \<and> returns (measure_call exact
        (Top (final (TopRow_populate example_renderer example_heap 0 new_TopRow))))
   \<and> returns (measure_call exact
        (Bottom (final (BottomRow_populate example_renderer example_heap 0 new_BottomRow))))
   \<and> returns (measure_call exact (Spacer (new_SpacerRow example_renderer 5 20)))
   \<and> returns (measure_call exact (InputR (new_InputRow\<lparr>Row.elements :=
         [example_corner, example_spacer, example_statement]\<rparr>)))"
  using populate_measure_return
    [where env = example_renderer and h = example_heap and b = 0 and ar = exact
       and t = new_TopRow and r = new_BottomRow]
    populate_measure_return
    [where ar = exact
       and t = "final (TopRow_populate example_renderer example_heap 0 new_TopRow)"
       and r = "final (BottomRow_populate example_renderer example_heap 0 new_BottomRow)"
       and s = "new_SpacerRow example_renderer 5 20"
       and i = "new_InputRow\<lparr>Row.elements :=
                  [example_corner, example_spacer, example_statement]\<rparr>"]
  by simp

end
